theory Spec2Isabelle
  imports Main "HOL-Library.AList" "HOL-Library.Char_ord" "HOL-Library.List_Lexorder"
begin

section \<open>Data model\<close>

text \<open>
  The values that \<^verbatim>\<open>response.json()\<close> yields. Python's \<^verbatim>\<open>float\<close> is kept abstract as the
  type parameter \<open>'f\<close>: no function of \<^verbatim>\<open>main.py\<close> looks inside a float. A Python
  \<^verbatim>\<open>dict\<close> is an association list in insertion order whose keys are pairwise distinct.
\<close>

datatype 'f json =
    JNull
  | JBool bool
  | JInt int
  | JFloat 'f
  | JStr string
  | JList "'f json list"
  | JDict "(string \<times> 'f json) list"

type_synonym 'f pydict = "(string \<times> 'f json) list"

text \<open>\<^verbatim>\<open>d.get(k)\<close> as an option, \<^verbatim>\<open>d.get(k)\<close> with Python's default \<^verbatim>\<open>None\<close>,
  \<^verbatim>\<open>d[k] = v\<close> (in place when the key exists, appended otherwise), \<^verbatim>\<open>d.pop(k)\<close> and
  \<^verbatim>\<open>d.keys()\<close>.\<close>

definition dict_get :: "'f pydict \<Rightarrow> string \<Rightarrow> 'f json option" where
  "dict_get d k = map_of d k"

definition dict_get_none :: "'f pydict \<Rightarrow> string \<Rightarrow> 'f json" where
  "dict_get_none d k = (case dict_get d k of None \<Rightarrow> JNull | Some v \<Rightarrow> v)"

definition dict_set :: "string \<Rightarrow> 'f json \<Rightarrow> 'f pydict \<Rightarrow> 'f pydict" where
  "dict_set k v d = AList.update k v d"

definition dict_pop :: "string \<Rightarrow> 'f pydict \<Rightarrow> 'f pydict" where
  "dict_pop k d = AList.delete k d"

definition dict_keys :: "'f pydict \<Rightarrow> string list" where
  "dict_keys d = map fst d"

text \<open>\<^verbatim>\<open>isinstance(value, (dict, list))\<close>, and its complement on JSON values.\<close>

fun is_nested :: "'f json \<Rightarrow> bool" where
  "is_nested (JList _) = True"
| "is_nested (JDict _) = True"
| "is_nested _ = False"

definition is_scalar :: "'f json \<Rightarrow> bool" where
  "is_scalar v = (\<not> is_nested v)"

section \<open>normalize_event (main.py, lines 119-145)\<close>

text \<open>
  First as a function on contents: what the dict bound to \<^verbatim>\<open>event\<close> holds when the
  function returns, given what it held at the call. The statements themselves, acting
  on a store of dict objects, follow further down.

  Lines 135-140: when \<^verbatim>\<open>event.get("input")\<close> is a dict it is popped and its four
  sub-fields are stored at the top level.
\<close>

definition promote_input :: "'f pydict \<Rightarrow> 'f pydict" where
  "promote_input event =
     (case dict_get event ''input'' of
        Some (JDict input_data) \<Rightarrow>
          (let event = dict_pop ''input'' event;
               event = dict_set ''input'' (dict_get_none input_data ''input'') event;
               event = dict_set ''output'' (dict_get_none input_data ''output'') event;
               event = dict_set ''expected'' (dict_get_none input_data ''expected'') event;
               event = dict_set ''metadata'' (dict_get_none input_data ''metadata'') event
           in event)
      | _ \<Rightarrow> event)"

text \<open>
  Lines 142-144: the loop over \<^verbatim>\<open>event.items()\<close>. The library function
  \<^verbatim>\<open>json.dumps\<close> is the parameter \<open>dumps\<close>. The loop only stores into keys that exist,
  so the items it visits are those the dict held when the loop started.
\<close>

definition serialize_step ::
  "('f json \<Rightarrow> string) \<Rightarrow> string \<times> 'f json \<Rightarrow> 'f pydict \<Rightarrow> 'f pydict" where
  "serialize_step dumps kv event =
     (if is_nested (snd kv) then dict_set (fst kv) (JStr (dumps (snd kv))) event else event)"

definition serialize_nested :: "('f json \<Rightarrow> string) \<Rightarrow> 'f pydict \<Rightarrow> 'f pydict" where
  "serialize_nested dumps event = fold (serialize_step dumps) event event"

definition normalize_event :: "('f json \<Rightarrow> string) \<Rightarrow> 'f pydict \<Rightarrow> 'f pydict" where
  "normalize_event dumps event = serialize_nested dumps (promote_input event)"

text \<open>What one value looks like after the loop of lines 142-144.\<close>

definition flat :: "('f json \<Rightarrow> string) \<Rightarrow> 'f json \<Rightarrow> 'f json" where
  "flat dumps v = (if is_nested v then JStr (dumps v) else v)"

section \<open>Exceptions, log records, requests\<close>

text \<open>
  The exceptions that can travel through \<^verbatim>\<open>main.py\<close>. \<open>RequestException\<close> stands for
  every subclass of \<^verbatim>\<open>requests.exceptions.RequestException\<close>, \<open>IOError\<close> for \<^verbatim>\<open>OSError\<close>
  and its subclasses, \<open>OtherException\<close> for any other \<^verbatim>\<open>Exception\<close> raised by a
  library. \<open>IndexError\<close> is what \<^verbatim>\<open>items[-1]\<close> raises on an empty page, and
  \<open>UnboundLocalError\<close> what reading \<^verbatim>\<open>filename\<close> raises before line 177 has run.
\<close>

datatype error =
    RequestException string
  | IOError string
  | OtherException string
  | IndexError
  | UnboundLocalError

fun is_request_exception :: "error \<Rightarrow> bool" where
  "is_request_exception (RequestException _) = True"
| "is_request_exception _ = False"

text \<open>\<^verbatim>\<open>except IOError\<close>: \<^verbatim>\<open>requests\<close> derives its \<^verbatim>\<open>RequestException\<close> from \<^verbatim>\<open>IOError\<close>.\<close>

fun is_io_error :: "error \<Rightarrow> bool" where
  "is_io_error (IOError _) = True"
| "is_io_error (RequestException _) = True"
| "is_io_error _ = False"

datatype level = INFO | WARNING | ERROR

text \<open>One constructor per logging call of the source, carrying what its f-string prints.\<close>

datatype log_msg =
    ErrFetchObjectList string error
  | UnexpectedFetchObjectList error
  | ErrFetchEvents string string error
  | UnexpectedFetchEvents error
  | NoEventsFound string
  | ErrWritingCsv string error
  | UnexpectedWritingCsv string error
  | ErrProcessing string string error
  | ProcessingComplete string
  | TotalObjectsProcessed nat
  | ObjectsWithNoEvents nat
  | IdsWithNoEvents "string list"
  | ErrDownloading string error
  | FailedObjects string "string list"
  | FailedEndpoints "string list"

type_synonym log_record = "level \<times> log_msg"

text \<open>The query parameters of a listing request (the dict \<^verbatim>\<open>params\<close> of lines 33-46); an
  absent key is \<open>None\<close>.\<close>

record list_params =
  p_limit :: int
  p_starting_after :: "string option"
  p_project_id :: "string option"
  p_project_name :: "string option"

text \<open>A request: the endpoint of the URL and the query parameters. A fetch request
  carries the object id, \<^verbatim>\<open>limit\<close> and the cursor when it is sent.\<close>

datatype request =
    ListRequest string list_params
  | FetchRequest string string int "string option"

text \<open>Python's truth value of an optional string (\<^verbatim>\<open>if cursor:\<close>).\<close>

fun truthy :: "string option \<Rightarrow> bool" where
  "truthy None = False"
| "truthy (Some s) = (s \<noteq> [])"

text \<open>
  The remote API as the interface declares it: an object has a string \<^verbatim>\<open>id\<close> and further
  attributes; a listing response body may hold \<^verbatim>\<open>objects\<close>; a fetch response body may
  hold \<^verbatim>\<open>events\<close> (each a dict) and \<^verbatim>\<open>cursor\<close>. A response is the decoded body, or the
  exception that \<^verbatim>\<open>requests.get\<close>, \<^verbatim>\<open>raise_for_status\<close> or \<^verbatim>\<open>response.json\<close> raised.
\<close>

record 'f obj =
  obj_id :: string
  obj_attrs :: "'f pydict"

record 'f objects_page =
  page_objects :: "'f obj list option"

record 'f events_page =
  page_events :: "'f pydict list option"
  page_cursor :: "string option"

type_synonym 'a response = "error + 'a"

text \<open>\<^verbatim>\<open>data.get('objects', [])\<close> and \<^verbatim>\<open>data.get("events", [])\<close>.\<close>

definition objects_of :: "'f objects_page \<Rightarrow> 'f obj list" where
  "objects_of data = (case page_objects data of None \<Rightarrow> [] | Some xs \<Rightarrow> xs)"

definition events_of :: "'f events_page \<Rightarrow> 'f pydict list" where
  "events_of data = (case page_events data of None \<Rightarrow> [] | Some xs \<Rightarrow> xs)"

section \<open>fetch_object_list (main.py, lines 14-72)\<close>

text \<open>
  The loop of lines 49-70 against the responses the server gives to its successive
  requests. The result is \<open>None\<close> when the loop is still running after the last of
  them; otherwise the requests sent, the records logged, and the exception raised
  or the list returned.
\<close>

fun fetch_object_list_loop ::
  "string \<Rightarrow> int \<Rightarrow> 'f objects_page response list \<Rightarrow> list_params \<Rightarrow> 'f obj list \<Rightarrow>
   (request list \<times> log_record list \<times> (error + 'f obj list)) option" where
  "fetch_object_list_loop endpoint limit [] params all_objects = None"
| "fetch_object_list_loop endpoint limit (Inl e # rs) params all_objects =
     Some ([ListRequest endpoint params],
           [(ERROR, if is_request_exception e then ErrFetchObjectList endpoint e
                    else UnexpectedFetchObjectList e)],
           Inl e)"
| "fetch_object_list_loop endpoint limit (Inr data # rs) params all_objects =
     (let items = objects_of data;
          all_objects = all_objects @ items
      in if int (length items) < limit then
           Some ([ListRequest endpoint params], [], Inr all_objects)
         else if items = [] then
           Some ([ListRequest endpoint params],
                 [(ERROR, UnexpectedFetchObjectList IndexError)], Inl IndexError)
         else
           (case fetch_object_list_loop endpoint limit rs
                   (params\<lparr>p_starting_after := Some (obj_id (last items))\<rparr>) all_objects of
              None \<Rightarrow> None
            | Some (reqs, lgs, r) \<Rightarrow> Some (ListRequest endpoint params # reqs, lgs, r)))"

text \<open>Lines 33-46: the first request's parameters.\<close>

definition initial_params ::
  "int \<Rightarrow> string option \<Rightarrow> string option \<Rightarrow> string option \<Rightarrow> list_params" where
  "initial_params limit starting_after project_id project_name =
     \<lparr>p_limit = limit,
      p_starting_after = (if truthy starting_after then starting_after else None),
      p_project_id = (if truthy project_id then project_id else None),
      p_project_name = (if truthy project_name then project_name else None)\<rparr>"

definition fetch_object_list ::
  "'f objects_page response list \<Rightarrow> string \<Rightarrow> int \<Rightarrow> string option \<Rightarrow> string option \<Rightarrow>
   string option \<Rightarrow> (request list \<times> log_record list \<times> (error + 'f obj list)) option" where
  "fetch_object_list responses endpoint limit starting_after project_id project_name =
     fetch_object_list_loop endpoint limit responses
       (initial_params limit starting_after project_id project_name) []"

section \<open>fetch_events (main.py, lines 75-116)\<close>

fun fetch_events_loop ::
  "string \<Rightarrow> string \<Rightarrow> int \<Rightarrow> 'f events_page response list \<Rightarrow> string option \<Rightarrow>
   'f pydict list \<Rightarrow> (request list \<times> log_record list \<times> (error + 'f pydict list)) option" where
  "fetch_events_loop object_id endpoint limit [] cursor object_events = None"
| "fetch_events_loop object_id endpoint limit (Inl e # rs) cursor object_events =
     Some ([FetchRequest endpoint object_id limit (if truthy cursor then cursor else None)],
           [(ERROR, if is_request_exception e then ErrFetchEvents endpoint object_id e
                    else UnexpectedFetchEvents e)],
           Inl e)"
| "fetch_events_loop object_id endpoint limit (Inr data # rs) cursor object_events =
     (let req = FetchRequest endpoint object_id limit (if truthy cursor then cursor else None);
          events = events_of data;
          object_events = object_events @ events;
          cursor = page_cursor data
      in if \<not> truthy cursor then Some ([req], [], Inr object_events)
         else
           (case fetch_events_loop object_id endpoint limit rs cursor object_events of
              None \<Rightarrow> None
            | Some (reqs, lgs, r) \<Rightarrow> Some (req # reqs, lgs, r)))"

definition fetch_events ::
  "'f events_page response list \<Rightarrow> string \<Rightarrow> string \<Rightarrow> int \<Rightarrow>
   (request list \<times> log_record list \<times> (error + 'f pydict list)) option" where
  "fetch_events responses object_id endpoint limit =
     fetch_events_loop object_id endpoint limit responses None []"

section \<open>The file system and the log\<close>

text \<open>
  A CSV file is kept as what \<^verbatim>\<open>csv.DictWriter\<close> hands to the underlying writer: the
  header row and, for each record, the list of cell values. The observable state is
  the requests sent, the records logged, the directories, the files that hold a table
  written to the end, and the files that a write which broke off has left empty or
  partly written.
\<close>

record 'f csv_table =
  header :: "string list"
  rows :: "'f json list list"

record 'f io =
  sent :: "request list"
  logs :: "log_record list"
  fs_dirs :: "string set"
  fs_files :: "string \<Rightarrow> 'f csv_table option"
  fs_partial :: "string set"

text \<open>
  The environment of one run: the responses the listing endpoint gives to successive
  requests, those the fetch endpoint gives for each object, and the paths on which
  \<^verbatim>\<open>os.makedirs\<close>, opening a file for writing, or writing to the opened file raises,
  with the exception raised.
\<close>

record 'f env =
  list_pages :: "string \<Rightarrow> 'f objects_page response list"
  event_pages :: "string \<Rightarrow> string \<Rightarrow> 'f events_page response list"
  makedirs_error :: "string \<Rightarrow> error option"
  open_error :: "string \<Rightarrow> error option"
  write_error :: "string \<Rightarrow> error option"

definition logger :: "level \<Rightarrow> log_msg \<Rightarrow> 'f io \<Rightarrow> 'f io" where
  "logger lvl msg io = io\<lparr>logs := logs io @ [(lvl, msg)]\<rparr>"

text \<open>\<^verbatim>\<open>os.makedirs(path, exist_ok=True)\<close>.\<close>

definition os_makedirs :: "'f env \<Rightarrow> 'f io \<Rightarrow> string \<Rightarrow> error + 'f io" where
  "os_makedirs env io path =
     (case makedirs_error env path of
        Some e \<Rightarrow> Inl e
      | None \<Rightarrow> Inr (io\<lparr>fs_dirs := insert path (fs_dirs io)\<rparr>))"

text \<open>
  Lines 183-186: \<^verbatim>\<open>open(filename, "w")\<close> and the writes. When \<^verbatim>\<open>open\<close> raises, the file
  system is as before. \<^verbatim>\<open>open\<close> truncates the file: when a write (or the closing flush)
  raises after it, the table the file held is lost and the file is left empty or partly
  written. Otherwise the file holds the new table. The result is the new state and the
  exception raised, if any.
\<close>

definition write_file ::
  "'f env \<Rightarrow> 'f io \<Rightarrow> string \<Rightarrow> 'f csv_table \<Rightarrow> 'f io \<times> error option" where
  "write_file env io filename table =
     (case open_error env filename of
        Some e \<Rightarrow> (io, Some e)
      | None \<Rightarrow>
          (case write_error env filename of
             Some e \<Rightarrow>
               (io\<lparr>fs_files := (fs_files io)(filename := None),
                   fs_partial := insert filename (fs_partial io)\<rparr>, Some e)
           | None \<Rightarrow>
               (io\<lparr>fs_files := (fs_files io)(filename \<mapsto> table),
                   fs_partial := fs_partial io - {filename}\<rparr>, None)))"

text \<open>\<^verbatim>\<open>DictWriter\<close> builds a row as \<^verbatim>\<open>rowdict.get(key, restval)\<close> for each key of
  \<^verbatim>\<open>fieldnames\<close>, with \<^verbatim>\<open>restval\<close> the empty string.\<close>

definition dict_to_list :: "string list \<Rightarrow> 'f pydict \<Rightarrow> 'f json list" where
  "dict_to_list fieldnames rowdict =
     map (\<lambda>key. case dict_get rowdict key of None \<Rightarrow> JStr [] | Some v \<Rightarrow> v) fieldnames"

section \<open>normalize_event, statement by statement on the store\<close>

text \<open>
  The statements of lines 135-145 act on the dict object bound to \<^verbatim>\<open>event\<close>. Here dict
  objects live in a store indexed by references, next to the rest of the observable
  state, and each statement is a step on that state. The exceptions these statements
  can raise: \<^verbatim>\<open>KeyError\<close> from \<^verbatim>\<open>pop\<close> of a missing key, \<^verbatim>\<open>AttributeError\<close> from
  \<^verbatim>\<open>.get\<close> on a value that is not a dict, and \<^verbatim>\<open>RuntimeError\<close> from iterating over a dict
  whose size has changed.
\<close>

type_synonym 'f heap = "nat \<Rightarrow> 'f pydict"

record 'f pystate =
  st_io :: "'f io"
  st_heap :: "'f heap"

datatype dict_error = KeyError string | AttributeError | RuntimeError

definition and_then :: "dict_error + 'a \<Rightarrow> ('a \<Rightarrow> dict_error + 'b) \<Rightarrow> dict_error + 'b" where
  "and_then r f = (case r of Inl e \<Rightarrow> Inl e | Inr x \<Rightarrow> f x)"

text \<open>\<^verbatim>\<open>event.pop(key)\<close>: the value removed and the new state.\<close>

definition heap_pop ::
  "nat \<Rightarrow> string \<Rightarrow> 'f pystate \<Rightarrow> dict_error + ('f json \<times> 'f pystate)" where
  "heap_pop event key s =
     (case dict_get (st_heap s event) key of
        None \<Rightarrow> Inl (KeyError key)
      | Some v \<Rightarrow> Inr (v, s\<lparr>st_heap := (st_heap s)(event := dict_pop key (st_heap s event))\<rparr>))"

text \<open>\<^verbatim>\<open>event[key] = value\<close>.\<close>

definition heap_store :: "nat \<Rightarrow> string \<Rightarrow> 'f json \<Rightarrow> 'f pystate \<Rightarrow> 'f pystate" where
  "heap_store event key v s =
     s\<lparr>st_heap := (st_heap s)(event := dict_set key v (st_heap s event))\<rparr>"

text \<open>\<^verbatim>\<open>input_data.get(key)\<close> on the value that was popped.\<close>

definition json_get :: "'f json \<Rightarrow> string \<Rightarrow> dict_error + 'f json" where
  "json_get v key = (case v of JDict d \<Rightarrow> Inr (dict_get_none d key) | _ \<Rightarrow> Inl AttributeError)"

text \<open>Lines 135-140.\<close>

definition promote_inplace :: "nat \<Rightarrow> 'f pystate \<Rightarrow> dict_error + 'f pystate" where
  "promote_inplace event s =
     (case dict_get (st_heap s event) ''input'' of
        Some (JDict d) \<Rightarrow>
          and_then (heap_pop event ''input'' s) (\<lambda>(input_data, s).
          and_then (json_get input_data ''input'') (\<lambda>v. let s = heap_store event ''input'' v s in
          and_then (json_get input_data ''output'') (\<lambda>v. let s = heap_store event ''output'' v s in
          and_then (json_get input_data ''expected'') (\<lambda>v. let s = heap_store event ''expected'' v s in
          and_then (json_get input_data ''metadata'') (\<lambda>v.
            Inr (heap_store event ''metadata'' v s))))))
      | _ \<Rightarrow> Inr s)"

text \<open>
  Lines 142-144, over the items the dict holds when the loop starts. A store under a
  key the dict has changes neither its keys nor their order; a store under a key it
  lacks would change its size, and the iteration would then raise.
\<close>

fun serialize_loop ::
  "('f json \<Rightarrow> string) \<Rightarrow> nat \<Rightarrow> (string \<times> 'f json) list \<Rightarrow> 'f pystate \<Rightarrow>
   dict_error + 'f pystate" where
  "serialize_loop dumps event [] s = Inr s"
| "serialize_loop dumps event ((key, value) # items) s =
     (if is_nested value then
        (if key \<in> set (dict_keys (st_heap s event))
         then serialize_loop dumps event items (heap_store event key (JStr (dumps value)) s)
         else Inl RuntimeError)
      else serialize_loop dumps event items s)"

text \<open>The whole function: the exception raised, or the final state and the reference
  returned by line 145.\<close>

definition normalize_event_inplace ::
  "('f json \<Rightarrow> string) \<Rightarrow> 'f pystate \<Rightarrow> nat \<Rightarrow> dict_error + ('f pystate \<times> nat)" where
  "normalize_event_inplace dumps s event =
     and_then (promote_inplace event s) (\<lambda>s.
     and_then (serialize_loop dumps event (st_heap s event) s) (\<lambda>s.
       Inr (s, event)))"

section \<open>write_to_csv (main.py, lines 148-193)\<close>

text \<open>
  Lines 188-193, the two handlers. \<open>filename\<close> is \<open>None\<close> while line 177 has not run:
  the f-string of line 189 then raises before anything is logged.
\<close>

definition write_to_csv_except ::
  "string \<Rightarrow> string option \<Rightarrow> 'f io \<Rightarrow> error \<Rightarrow> 'f io \<times> (error + unit)" where
  "write_to_csv_except object_id filename io e =
     (if is_io_error e then
        (case filename of
           None \<Rightarrow> (io, Inl UnboundLocalError)
         | Some f \<Rightarrow> (logger ERROR (ErrWritingCsv f e) io, Inl e))
      else (logger ERROR (UnexpectedWritingCsv object_id e) io, Inl e))"

definition csv_filename :: "string \<Rightarrow> string \<Rightarrow> string" where
  "csv_filename directory object_id = ''braintrust_data/'' @ directory @ ''/'' @ object_id @ ''.csv''"

text \<open>Lines 178-186: the table written for a non-empty list of events.\<close>

definition csv_table_of :: "('f json \<Rightarrow> string) \<Rightarrow> 'f pydict list \<Rightarrow> 'f csv_table" where
  "csv_table_of dumps events =
     (let normalized_events = map (normalize_event dumps) events;
          fieldnames = fold (\<lambda>event s. s \<union> set (dict_keys event)) normalized_events {}
      in \<lparr>header = sorted_list_of_set fieldnames,
          rows = map (dict_to_list (sorted_list_of_set fieldnames)) normalized_events\<rparr>)"

definition write_to_csv ::
  "('f json \<Rightarrow> string) \<Rightarrow> 'f env \<Rightarrow> 'f io \<Rightarrow> 'f pydict list \<Rightarrow> string \<Rightarrow> string \<Rightarrow>
   'f io \<times> (error + unit)" where
  "write_to_csv dumps env io events directory object_id =
     (case os_makedirs env io ''braintrust_data'' of
        Inl e \<Rightarrow> write_to_csv_except object_id None io e
      | Inr io1 \<Rightarrow>
          (case os_makedirs env io1 (''braintrust_data/'' @ directory) of
             Inl e \<Rightarrow> write_to_csv_except object_id None io1 e
           | Inr io2 \<Rightarrow>
               if events = [] then (logger WARNING (NoEventsFound object_id) io2, Inr ())
               else
                 (let filename = csv_filename directory object_id
                  in case write_file env io2 filename (csv_table_of dumps events) of
                       (io3, Some e) \<Rightarrow> write_to_csv_except object_id (Some filename) io3 e
                     | (io3, None) \<Rightarrow> (io3, Inr ()))))"

section \<open>download_data (main.py, lines 195-245)\<close>

text \<open>The three lists of lines 217-219.\<close>

record run_vars =
  failed_endpoints :: "string list"
  failed_objects :: "string list"
  objects_without_events :: "string list"

text \<open>Lines 228-232: the handler of the inner \<^verbatim>\<open>try\<close>.\<close>

definition process_except ::
  "string \<Rightarrow> string \<Rightarrow> 'f io \<Rightarrow> run_vars \<Rightarrow> error \<Rightarrow> 'f io \<times> run_vars" where
  "process_except endpoint object_id io vars e =
     (logger ERROR (ErrProcessing endpoint object_id e) io,
      vars\<lparr>failed_endpoints := failed_endpoints vars @ [endpoint],
           failed_objects := failed_objects vars @ [object_id]\<rparr>)"

text \<open>Lines 222-232: the body of the loop for one object; \<open>None\<close> when
  \<^verbatim>\<open>fetch_events\<close> does not return. \<^verbatim>\<open>fetch_events\<close> is called with its default
  \<^verbatim>\<open>limit=100\<close>.\<close>

definition process_object ::
  "('f json \<Rightarrow> string) \<Rightarrow> 'f env \<Rightarrow> string \<Rightarrow> 'f io \<times> run_vars \<Rightarrow> 'f obj \<Rightarrow>
   ('f io \<times> run_vars) option" where
  "process_object dumps env endpoint s obj =
     (case fetch_events (event_pages env endpoint (obj_id obj)) (obj_id obj) endpoint 100 of
        None \<Rightarrow> None
      | Some (reqs, lgs, r) \<Rightarrow>
          (let io = (fst s)\<lparr>sent := sent (fst s) @ reqs, logs := logs (fst s) @ lgs\<rparr>;
               vars = snd s
           in case r of
                Inl e \<Rightarrow> Some (process_except endpoint (obj_id obj) io vars e)
              | Inr object_events \<Rightarrow>
                  if object_events = [] then
                    Some (io, vars\<lparr>objects_without_events :=
                                     objects_without_events vars @ [obj_id obj]\<rparr>)
                  else
                    (case write_to_csv dumps env io object_events endpoint (obj_id obj) of
                       (io', Inl e) \<Rightarrow> Some (process_except endpoint (obj_id obj) io' vars e)
                     | (io', Inr _) \<Rightarrow> Some (io', vars))))"

text \<open>Line 221: the loop over \<^verbatim>\<open>objects_list\<close>.\<close>

fun process_objects ::
  "('f json \<Rightarrow> string) \<Rightarrow> 'f env \<Rightarrow> string \<Rightarrow> 'f obj list \<Rightarrow> 'f io \<times> run_vars \<Rightarrow>
   ('f io \<times> run_vars) option" where
  "process_objects dumps env endpoint [] s = Some s"
| "process_objects dumps env endpoint (obj # objs) s =
     (case process_object dumps env endpoint s obj of
        None \<Rightarrow> None
      | Some s' \<Rightarrow> process_objects dumps env endpoint objs s')"

text \<open>Lines 234-238 and 244-245: what is logged once the loop has ended.\<close>

definition run_summary :: "string \<Rightarrow> 'f obj list \<Rightarrow> run_vars \<Rightarrow> log_record list" where
  "run_summary endpoint objects_list vars =
     [(INFO, ProcessingComplete endpoint),
      (INFO, TotalObjectsProcessed (length objects_list)),
      (INFO, ObjectsWithNoEvents (length (objects_without_events vars)))]
     @ (if objects_without_events vars \<noteq> []
        then [(INFO, IdsWithNoEvents (objects_without_events vars))] else [])
     @ (if failed_endpoints vars \<noteq> []
        then [(ERROR, FailedEndpoints (failed_endpoints vars))] else [])"

definition initial_vars :: run_vars where
  "initial_vars = \<lparr>failed_endpoints = [], failed_objects = [], objects_without_events = []\<rparr>"

text \<open>
  The whole function: \<open>None\<close> when it does not return, else the final state with
  \<open>Inl e\<close> when it raises \<open>e\<close> and \<open>Inr ()\<close> when it returns. \<^verbatim>\<open>fetch_object_list\<close> is
  called with its default \<^verbatim>\<open>limit=10\<close> and no \<^verbatim>\<open>starting_after\<close>; lines 240-243 are the
  handler of the outer \<^verbatim>\<open>try\<close>.
\<close>

definition download_data ::
  "('f json \<Rightarrow> string) \<Rightarrow> 'f env \<Rightarrow> 'f io \<Rightarrow> string \<Rightarrow> string option \<Rightarrow> string option \<Rightarrow>
   ('f io \<times> (error + unit)) option" where
  "download_data dumps env io endpoint project_id project_name =
     (case fetch_object_list (list_pages env endpoint) endpoint 10 None project_id project_name of
        None \<Rightarrow> None
      | Some (reqs, lgs, r) \<Rightarrow>
          (let io1 = io\<lparr>sent := sent io @ reqs, logs := logs io @ lgs\<rparr>
           in case r of
                Inl e \<Rightarrow>
                  Some (logger ERROR (FailedObjects endpoint (failed_objects initial_vars))
                          (logger ERROR (ErrDownloading endpoint e) io1),
                        Inl e)
              | Inr objects_list \<Rightarrow>
                  (case process_objects dumps env endpoint objects_list (io1, initial_vars) of
                     None \<Rightarrow> None
                   | Some (io2, vars) \<Rightarrow>
                       Some (io2\<lparr>logs := logs io2 @ run_summary endpoint objects_list vars\<rparr>,
                             Inr ()))))"

section \<open>The outcome of one object\<close>

text \<open>
  What happens to one object depends on the environment and on the object's id only:
  what its fetch returns, what writing its events returns (on any disk, so on an empty
  one), and the exception that the handler of lines 228-232 catches for it, if any.
\<close>

definition empty_io :: "'f io" where
  "empty_io = \<lparr>sent = [], logs = [], fs_dirs = {}, fs_files = (\<lambda>path. None), fs_partial = {}\<rparr>"

definition fetched :: "'f env \<Rightarrow> string \<Rightarrow> string \<Rightarrow> (error + 'f pydict list) option" where
  "fetched env endpoint object_id =
     map_option (\<lambda>(reqs, lgs, r). r)
       (fetch_events (event_pages env endpoint object_id) object_id endpoint 100)"

definition written ::
  "('f json \<Rightarrow> string) \<Rightarrow> 'f env \<Rightarrow> 'f pydict list \<Rightarrow> string \<Rightarrow> string \<Rightarrow> error + unit" where
  "written dumps env events endpoint object_id =
     snd (write_to_csv dumps env empty_io events endpoint object_id)"

definition caught :: "('f json \<Rightarrow> string) \<Rightarrow> 'f env \<Rightarrow> string \<Rightarrow> string \<Rightarrow> error option" where
  "caught dumps env endpoint object_id =
     (case fetched env endpoint object_id of
        None \<Rightarrow> None
      | Some (Inl e) \<Rightarrow> Some e
      | Some (Inr events) \<Rightarrow>
          if events = [] then None
          else (case written dumps env events endpoint object_id of
                  Inl e \<Rightarrow> Some e | Inr u \<Rightarrow> None))"

definition no_events :: "'f env \<Rightarrow> string \<Rightarrow> string \<Rightarrow> bool" where
  "no_events env endpoint object_id = (fetched env endpoint object_id = Some (Inr []))"

section \<open>Example inputs\<close>

definition example_dumps :: "unit json \<Rightarrow> string" where
  "example_dumps v = (case v of JList _ \<Rightarrow> ''[..]'' | JDict _ \<Rightarrow> ''{..}'' | _ \<Rightarrow> [])"

definition example_event :: "unit pydict" where
  "example_event =
     [(''id'', JStr ''e1''), (''output'', JStr ''old''),
      (''input'', JDict [(''input'', JDict [(''output'', JStr ''inner'')]),
                         (''metadata'', JDict [(''k'', JInt 1)])]),
      (''tags'', JList [JStr ''t''])]"

definition promotion_event :: "unit pydict" where
  "promotion_event =
     [(''id'', JStr ''e1''), (''output'', JStr ''old''),
      (''input'', JDict [(''input'', JStr ''a''), (''output'', JStr ''b''),
                         (''expected'', JStr ''c''), (''metadata'', JDict [(''k'', JInt 1)])])]"

definition example_scalar_event :: "unit pydict" where
  "example_scalar_event =
     [(''id'', JStr ''e2''), (''input'', JStr ''q''), (''score'', JFloat ()), (''ok'', JBool True),
      (''n'', JInt 3), (''note'', JNull)]"

definition example_heap :: "unit heap" where
  "example_heap r = (if r = 0 then example_event else example_scalar_event)"

definition example_state :: "unit pystate" where
  "example_state = \<lparr>st_io = empty_io, st_heap = example_heap\<rparr>"

definition other_state :: "unit pystate" where
  "other_state =
     \<lparr>st_io = empty_io\<lparr>logs := [(INFO, ProcessingComplete ''dataset'')]\<rparr>,
      st_heap = (\<lambda>r. example_event)\<rparr>"

definition ab_events :: "unit pydict list" where
  "ab_events = [[(''a'', JInt 1)], [(''b'', JInt 2)]]"

definition example_env :: "unit env" where
  "example_env =
     \<lparr>list_pages = (\<lambda>endpoint.
        [Inr \<lparr>page_objects = Some [\<lparr>obj_id = ''X'', obj_attrs = []\<rparr>,
                                    \<lparr>obj_id = ''Y'', obj_attrs = []\<rparr>,
                                    \<lparr>obj_id = ''Z'', obj_attrs = []\<rparr>]\<rparr>]),
      event_pages = (\<lambda>endpoint object_id.
        if object_id = ''X'' then [Inl (RequestException ''503'')]
        else if object_id = ''Y'' then [Inr \<lparr>page_events = Some ab_events, page_cursor = None\<rparr>]
        else [Inr \<lparr>page_events = Some [], page_cursor = None\<rparr>]),
      makedirs_error = (\<lambda>path. None),
      open_error = (\<lambda>path. None),
      write_error = (\<lambda>path. None)\<rparr>"

definition readonly_env :: "unit env" where
  "readonly_env = example_env\<lparr>makedirs_error := (\<lambda>path. Some (IOError ''EACCES''))\<rparr>"

definition example_io :: "unit io" where
  "example_io =
     \<lparr>sent = [], logs = [], fs_dirs = {}, fs_files = (\<lambda>path. None), fs_partial = {}\<rparr>"



definition example_objects :: "unit obj list" where
  "example_objects =
     [\<lparr>obj_id = ''X'', obj_attrs = []\<rparr>, \<lparr>obj_id = ''Y'', obj_attrs = []\<rparr>,
      \<lparr>obj_id = ''Z'', obj_attrs = []\<rparr>]"

definition down_env :: "unit env" where
  "down_env = example_env\<lparr>list_pages := (\<lambda>endpoint. [Inl (RequestException ''timeout'')])\<rparr>"

section \<open>Properties of normalize_event\<close>

lemma update_append_fresh:
  "k \<notin> fst ` set pre \<Longrightarrow> AList.update k v (pre @ (k, w) # suf) = pre @ (k, v) # suf"
  by (induction pre) auto

lemma fold_serialize_step:
  "distinct (map fst (pre @ suf)) \<Longrightarrow>
   fold (serialize_step dumps) suf (map (\<lambda>(k, v). (k, flat dumps v)) pre @ suf) =
   map (\<lambda>(k, v). (k, flat dumps v)) (pre @ suf)"
proof (induction suf arbitrary: pre)
  case Nil
  then show ?case by simp
next
  case (Cons kv suf)
  obtain k v where kv: "kv = (k, v)" by (cases kv)
  let ?F = "\<lambda>(k, v). (k, flat dumps v)"
  have fresh: "k \<notin> fst ` set (map ?F pre)"
    using Cons.prems by (force simp: kv image_iff)
  have step: "serialize_step dumps kv (map ?F pre @ kv # suf) = map ?F (pre @ [kv]) @ suf"
    using update_append_fresh [OF fresh, of _ v suf]
    by (simp add: serialize_step_def kv flat_def dict_set_def)
  have "distinct (map fst ((pre @ [kv]) @ suf))"
    using Cons.prems by simp
  from Cons.IH [OF this] show ?case
    by (simp add: step)
qed

lemma serialize_nested_map:
  "distinct (map fst event) \<Longrightarrow>
   serialize_nested dumps event = map (\<lambda>(k, v). (k, flat dumps v)) event"
  using fold_serialize_step [of "[]" event dumps] by (simp add: serialize_nested_def)

lemma fold_serialize_step_scalars:
  "\<forall>kv \<in> set xs. is_scalar (snd kv) \<Longrightarrow> fold (serialize_step dumps) xs event = event"
  by (induction xs arbitrary: event) (auto simp: serialize_step_def is_scalar_def)

lemma distinct_promote_input:
  "distinct (map fst event) \<Longrightarrow> distinct (map fst (promote_input event))"
  by (auto simp: promote_input_def dict_set_def dict_pop_def Let_def distinct_update distinct_delete
      split: option.splits json.splits)

lemma dict_get_set: "dict_get (dict_set k v d) k' = (if k' = k then Some v else dict_get d k')"
  by (simp add: dict_get_def dict_set_def update_conv')

lemma dict_get_pop: "dict_get (dict_pop k d) k' = (if k' = k then None else dict_get d k')"
  by (simp add: dict_get_def dict_pop_def delete_conv')

lemma dict_get_promote_input:
  "dict_get event ''input'' = Some (JDict m) \<Longrightarrow>
   dict_get (promote_input event) k =
     (if k \<in> {''input'', ''output'', ''expected'', ''metadata''}
      then Some (dict_get_none m k) else dict_get event k)"
  by (simp add: promote_input_def Let_def dict_get_set dict_get_pop)

lemma dict_get_map_flat:
  "dict_get (map (\<lambda>(k, v). (k, flat dumps v)) d) k = map_option (flat dumps) (dict_get d k)"
  by (induction d) (auto simp: dict_get_def)

lemma map_fst_flat: "map fst (map (\<lambda>(k, v). (k, flat dumps v)) d) = map fst d"
  by (induction d) auto

lemma is_scalar_flat: "is_scalar (flat dumps v)"
  by (simp add: flat_def is_scalar_def)

lemma normalize_event_map:
  "distinct (dict_keys event) \<Longrightarrow>
   normalize_event dumps event = map (\<lambda>(k, v). (k, flat dumps v)) (promote_input event)"
  by (simp add: normalize_event_def dict_keys_def serialize_nested_map distinct_promote_input)

lemma promote_input_scalars:
  "\<forall>kv \<in> set event. is_scalar (snd kv) \<Longrightarrow> promote_input event = event"
proof -
  assume sc: "\<forall>kv \<in> set event. is_scalar (snd kv)"
  have "dict_get event ''input'' \<noteq> Some (JDict m)" for m
  proof
    assume "dict_get event ''input'' = Some (JDict m)"
    then have "(''input'', JDict m) \<in> set event"
      by (simp add: dict_get_def map_of_SomeD)
    with sc have "is_scalar (JDict m :: 'a json)" by fastforce
    then show False by (simp add: is_scalar_def)
  qed
  then show ?thesis
    by (simp add: promote_input_def split: option.splits json.splits)
qed

text \<open>
  Claim C10. An event all of whose top-level values are scalars (no dict, no list) is
  returned by \<open>normalize_event\<close> as it was: same fields, same order, same values.
\<close>
theorem normalize_event_scalars_identity:
  assumes "\<forall>kv \<in> set event. is_scalar (snd kv)"
  shows "normalize_event dumps event = event"
  using assms
  by (simp add: normalize_event_def promote_input_scalars serialize_nested_def
      fold_serialize_step_scalars)

theorem normalize_event_scalars_identity_witness:
  "list_all (\<lambda>kv. is_scalar (snd kv)) example_scalar_event \<and>
   normalize_event example_dumps example_scalar_event = example_scalar_event"
proof -
  have h: "\<forall>kv \<in> set example_scalar_event. is_scalar (snd kv)"
    by (simp add: example_scalar_event_def is_scalar_def)
  show ?thesis
    using h normalize_event_scalars_identity [OF h, of example_dumps]
    by (simp add: list_all_iff)
qed

text \<open>
  Claim C5. Every value of the record that \<open>normalize_event\<close> produces is a scalar. The
  record is the event after the promotion of lines 135-140 with each dict or list
  value replaced by the string that \<open>dumps\<close> gives for that value (a function of the
  value alone), and every scalar value left as it is.
\<close>
theorem normalize_event_values_scalar:
  assumes "distinct (dict_keys event)"
  shows "(\<forall>kv \<in> set (normalize_event dumps event). is_scalar (snd kv)) \<and>
         normalize_event dumps event =
           map (\<lambda>(k, v). (k, if is_nested v then JStr (dumps v) else v)) (promote_input event)"
proof -
  have eq: "normalize_event dumps event = map (\<lambda>(k, v). (k, flat dumps v)) (promote_input event)"
    using assms by (rule normalize_event_map)
  have "\<forall>kv \<in> set (normalize_event dumps event). is_scalar (snd kv)"
    unfolding eq by (auto simp: is_scalar_flat)
  moreover have "(\<lambda>(k, v). (k, flat dumps v)) =
      (\<lambda>(k :: string, v). (k, if is_nested v then JStr (dumps v) else v))"
    by (simp add: flat_def fun_eq_iff)
  ultimately show ?thesis using eq by simp
qed

theorem normalize_event_values_scalar_witness:
  "distinct (dict_keys example_event) \<and>
   list_all (\<lambda>kv. is_scalar (snd kv)) (normalize_event example_dumps example_event) \<and>
   normalize_event example_dumps example_event =
     [(''id'', JStr ''e1''), (''output'', JNull), (''tags'', JStr ''[..]''),
      (''input'', JStr ''{..}''), (''expected'', JNull), (''metadata'', JStr ''{..}'')]"
proof -
  have h: "distinct (dict_keys example_event)"
    by (simp add: example_event_def dict_keys_def)
  have p: "promote_input example_event =
      [(''id'', JStr ''e1''), (''output'', JNull), (''tags'', JList [JStr ''t'']),
       (''input'', JDict [(''output'', JStr ''inner'')]), (''expected'', JNull),
       (''metadata'', JDict [(''k'', JInt 1)])]"
    by (simp add: promote_input_def example_event_def dict_get_def dict_get_none_def dict_set_def
        dict_pop_def AList.delete_eq)
  show ?thesis
    using h normalize_event_values_scalar [OF h, of example_dumps]
    by (simp add: p example_dumps_def list_all_iff)
qed

text \<open>
  Claim C4. When the event's \<open>input\<close> is a dict, each of the fields \<open>input\<close>, \<open>output\<close>,
  \<open>expected\<close>, \<open>metadata\<close> is set to what that dict holds under the same name, and to
  \<open>JNull\<close> when it holds nothing there, whatever the field held before; every other
  field keeps what it held. The sub-field is not expanded again: in the result it is
  itself when scalar and its serialisation when nested. The original dict is no longer
  the value of \<open>input\<close>, and each key still occurs once.
\<close>

theorem normalize_event_promotion:
  assumes "distinct (map fst event)"
    and "map_of event ''input'' = Some (JDict input_data)"
    and "k \<in> {''input'', ''output'', ''expected'', ''metadata''}"
  shows "map_of (promote_input event) k =
           Some (case map_of input_data k of None \<Rightarrow> JNull | Some v \<Rightarrow> v) \<and>
         map_of (normalize_event dumps event) k =
           Some (case map_of input_data k of
                   None \<Rightarrow> JNull
                 | Some v \<Rightarrow> if is_nested v then JStr (dumps v) else v) \<and>
         (k' \<notin> {''input'', ''output'', ''expected'', ''metadata''} \<longrightarrow>
            map_of (promote_input event) k' = map_of event k') \<and>
         map_of (normalize_event dumps event) ''input'' \<noteq> Some (JDict input_data) \<and>
         distinct (map fst (normalize_event dumps event))"
proof -
  have dk: "distinct (dict_keys event)"
    using assms(1) by (simp add: dict_keys_def)
  have inp: "dict_get event ''input'' = Some (JDict input_data)"
    using assms(2) by (simp add: dict_get_def)
  have eq: "normalize_event dumps event = map (\<lambda>(k, v). (k, flat dumps v)) (promote_input event)"
    using dk by (rule normalize_event_map)
  have p: "dict_get (promote_input event) k = Some (dict_get_none input_data k)"
    using inp assms(3) by (simp add: dict_get_promote_input)
  have n: "dict_get (normalize_event dumps event) k = Some (flat dumps (dict_get_none input_data k))"
    by (simp add: eq dict_get_map_flat p)
  have o: "k' \<notin> {''input'', ''output'', ''expected'', ''metadata''} \<longrightarrow>
      dict_get (promote_input event) k' = dict_get event k'"
    using inp by (simp add: dict_get_promote_input)
  have "dict_get (normalize_event dumps event) ''input'' =
        Some (flat dumps (dict_get_none input_data ''input''))"
    using inp by (simp add: eq dict_get_map_flat dict_get_promote_input)
  moreover have "flat dumps (dict_get_none input_data ''input'') \<noteq> JDict input_data"
    using is_scalar_flat [of dumps "dict_get_none input_data ''input''"]
    by (auto simp: is_scalar_def)
  ultimately have i: "dict_get (normalize_event dumps event) ''input'' \<noteq> Some (JDict input_data)"
    by simp
  have d: "distinct (map fst (normalize_event dumps event))"
    unfolding eq map_fst_flat
    using assms(1) by (rule distinct_promote_input)
  have p': "map_of (promote_input event) k =
      Some (case map_of input_data k of None \<Rightarrow> JNull | Some v \<Rightarrow> v)"
    using p by (simp add: dict_get_def dict_get_none_def)
  have n': "map_of (normalize_event dumps event) k =
      Some (case map_of input_data k of
              None \<Rightarrow> JNull
            | Some v \<Rightarrow> if is_nested v then JStr (dumps v) else v)"
    using n by (simp add: dict_get_def dict_get_none_def flat_def split: option.splits)
  show ?thesis
    using p' n' o i d by (simp add: dict_get_def)
qed

theorem normalize_event_promotion_witness:
  "distinct (map fst promotion_event) \<and>
   map_of promotion_event ''input'' =
     Some (JDict [(''input'', JStr ''a''), (''output'', JStr ''b''), (''expected'', JStr ''c''),
                  (''metadata'', JDict [(''k'', JInt 1)])]) \<and>
   ''output'' \<in> {''input'', ''output'', ''expected'', ''metadata''} \<and>
   ''id'' \<notin> {''input'', ''output'', ''expected'', ''metadata''} \<and>
   map_of promotion_event ''output'' = Some (JStr ''old'') \<and>
   map_of (promote_input promotion_event) ''output'' = Some (JStr ''b'') \<and>
   map_of (normalize_event example_dumps promotion_event) ''output'' = Some (JStr ''b'') \<and>
   map_of (promote_input promotion_event) ''metadata'' = Some (JDict [(''k'', JInt 1)]) \<and>
   map_of (normalize_event example_dumps promotion_event) ''metadata'' = Some (JStr ''{..}'') \<and>
   map_of (promote_input promotion_event) ''id'' = Some (JStr ''e1'') \<and>
   normalize_event example_dumps promotion_event =
     [(''id'', JStr ''e1''), (''output'', JStr ''b''), (''input'', JStr ''a''),
      (''expected'', JStr ''c''), (''metadata'', JStr ''{..}'')] \<and>
   distinct (map fst example_event) \<and>
   map_of example_event ''input'' =
     Some (JDict [(''input'', JDict [(''output'', JStr ''inner'')]),
                  (''metadata'', JDict [(''k'', JInt 1)])]) \<and>
   map_of (normalize_event example_dumps example_event) ''input'' = Some (JStr ''{..}'') \<and>
   map_of (normalize_event example_dumps example_event) ''output'' = Some JNull"
proof -
  have h1: "distinct (map fst promotion_event)"
    by (simp add: promotion_event_def)
  have h2: "map_of promotion_event ''input'' =
     Some (JDict [(''input'', JStr ''a''), (''output'', JStr ''b''), (''expected'', JStr ''c''),
                  (''metadata'', JDict [(''k'', JInt 1)])])"
    by (simp add: promotion_event_def)
  have h3: "''output'' \<in> {''input'', ''output'', ''expected'', ''metadata''}" by simp
  have h4: "''metadata'' \<in> {''input'', ''output'', ''expected'', ''metadata''}" by simp
  have g1: "distinct (map fst example_event)"
    by (simp add: example_event_def)
  have g2: "map_of example_event ''input'' =
     Some (JDict [(''input'', JDict [(''output'', JStr ''inner'')]),
                  (''metadata'', JDict [(''k'', JInt 1)])])"
    by (simp add: example_event_def)
  have g3: "''input'' \<in> {''input'', ''output'', ''expected'', ''metadata''}" by simp
  have old: "map_of promotion_event ''output'' = Some (JStr ''old'')"
    by (simp add: promotion_event_def)
  have whole: "normalize_event example_dumps promotion_event =
     [(''id'', JStr ''e1''), (''output'', JStr ''b''), (''input'', JStr ''a''),
      (''expected'', JStr ''c''), (''metadata'', JStr ''{..}'')]"
    by (simp add: normalize_event_def promote_input_def promotion_event_def dict_get_def
        dict_get_none_def dict_set_def dict_pop_def AList.delete_eq serialize_nested_def
        serialize_step_def example_dumps_def)
  show ?thesis
    using h1 h2 g1 g2 old whole
      normalize_event_promotion [OF h1 h2 h3, where k' = "''id''" and dumps = example_dumps]
      normalize_event_promotion [OF h1 h2 h4, where k' = "''id''" and dumps = example_dumps]
      normalize_event_promotion [OF g1 g2 g3, where k' = "''id''" and dumps = example_dumps]
      normalize_event_promotion [OF g1 g2 h3, where k' = "''id''" and dumps = example_dumps]
    by (simp add: example_dumps_def promotion_event_def)
qed

lemma promote_inplace_eq:
  "promote_inplace event s =
     Inr (s\<lparr>st_heap := (st_heap s)(event := promote_input (st_heap s event))\<rparr>)"
proof (cases "\<exists>d. dict_get (st_heap s event) ''input'' = Some (JDict d)")
  case True
  then obtain d where d: "dict_get (st_heap s event) ''input'' = Some (JDict d)" by blast
  then show ?thesis
    by (simp add: promote_inplace_def promote_input_def heap_pop_def heap_store_def json_get_def
        and_then_def Let_def)
next
  case False
  then show ?thesis
    by (simp add: promote_inplace_def promote_input_def split: option.splits json.splits)
qed

lemma dict_keys_dict_set:
  "key \<in> set (dict_keys d) \<Longrightarrow> set (dict_keys (dict_set key v d)) = set (dict_keys d)"
  by (auto simp: dict_keys_def dict_set_def update_keys)

lemma serialize_loop_eq:
  "fst ` set items \<subseteq> set (dict_keys (st_heap s event)) \<Longrightarrow>
   serialize_loop dumps event items s =
     Inr (s\<lparr>st_heap := (st_heap s)(event := fold (serialize_step dumps) items (st_heap s event))\<rparr>)"
proof (induction items arbitrary: s)
  case Nil
  then show ?case by simp
next
  case (Cons kv items)
  obtain key v where kv: "kv = (key, v)" by (cases kv)
  show ?case
  proof (cases "is_nested v")
    case False
    with Cons kv show ?thesis by (simp add: serialize_step_def)
  next
    case True
    let ?s1 = "heap_store event key (JStr (dumps v)) s"
    from Cons.prems kv have key: "key \<in> set (dict_keys (st_heap s event))" by simp
    have h1: "st_heap ?s1 event = dict_set key (JStr (dumps v)) (st_heap s event)"
      by (simp add: heap_store_def)
    have "fst ` set items \<subseteq> set (dict_keys (st_heap ?s1 event))"
      using Cons.prems key by (simp add: h1 dict_keys_dict_set)
    from Cons.IH [OF this] have ih: "serialize_loop dumps event items ?s1 =
        Inr (?s1\<lparr>st_heap := (st_heap ?s1)
               (event := fold (serialize_step dumps) items (st_heap ?s1 event))\<rparr>)" .
    have upd: "?s1\<lparr>st_heap := (st_heap ?s1)(event := x)\<rparr> =
        s\<lparr>st_heap := (st_heap s)(event := x)\<rparr>" for x
      by (simp add: heap_store_def)
    have step: "serialize_step dumps kv (st_heap s event) = st_heap ?s1 event"
      using True kv by (simp add: serialize_step_def h1)
    have "serialize_loop dumps event (kv # items) s = serialize_loop dumps event items ?s1"
      using True key kv by simp
    then show ?thesis
      by (simp only: ih upd fold_simps step)
  qed
qed

text \<open>The statements on the store compute what \<open>normalize_event\<close> says, at the argument's
  reference, and never raise.\<close>

lemma normalize_event_inplace_eq:
  "normalize_event_inplace dumps s event =
     Inr (s\<lparr>st_heap := (st_heap s)(event := normalize_event dumps (st_heap s event))\<rparr>, event)"
proof -
  let ?s1 = "s\<lparr>st_heap := (st_heap s)(event := promote_input (st_heap s event))\<rparr>"
  have "fst ` set (st_heap ?s1 event) \<subseteq> set (dict_keys (st_heap ?s1 event))"
    by (simp add: dict_keys_def)
  from serialize_loop_eq [OF this, of dumps] show ?thesis
    by (simp add: normalize_event_inplace_def promote_inplace_eq and_then_def normalize_event_def
        serialize_nested_def)
qed

text \<open>
  Claim C8, as stated: the call leaves the event it was given unmodified. It does not:
  the call returns normally, and the dict at reference 0, which held \<open>example_event\<close>,
  holds another record after it.
\<close>

theorem normalize_event_unmodified_counterexample:
  "\<not> isl (normalize_event_inplace example_dumps example_state 0) \<and>
   st_heap example_state 0 = example_event \<and>
   st_heap (fst (projr (normalize_event_inplace example_dumps example_state 0))) 0 =
     [(''id'', JStr ''e1''), (''output'', JNull), (''tags'', JStr ''[..]''),
      (''input'', JStr ''{..}''), (''expected'', JNull), (''metadata'', JStr ''{..}'')] \<and>
   st_heap (fst (projr (normalize_event_inplace example_dumps example_state 0))) 0 \<noteq>
     st_heap example_state 0"
  by (simp add: normalize_event_inplace_def promote_inplace_def serialize_loop.simps
      heap_pop_def heap_store_def json_get_def and_then_def example_state_def example_heap_def
      example_event_def dict_get_def dict_get_none_def dict_set_def dict_pop_def dict_keys_def
      AList.delete_eq example_dumps_def Let_def)

text \<open>
  Claim C8, amended. \<open>normalize_event\<close> never raises and returns the reference it was
  given; it leaves the requests, the log and the files as they were; but it works in
  place: after the call the dict at that reference holds the normalized record, which
  is a function of what the dict held before (and of the serialiser) alone, whatever
  the rest of the state is. Every other dict is untouched, and the state is unchanged
  exactly when the event already equals its normalized record.
\<close>

theorem normalize_event_inplace_effect:
  "\<exists>s'. normalize_event_inplace dumps s event = Inr (s', event) \<and>
         st_io s' = st_io s \<and>
         st_heap s' event = normalize_event dumps (st_heap s event) \<and>
         (\<forall>r. r \<noteq> event \<longrightarrow> st_heap s' r = st_heap s r) \<and>
         (s' = s \<longleftrightarrow> normalize_event dumps (st_heap s event) = st_heap s event) \<and>
         (st_heap t event2 = st_heap s event \<longrightarrow>
            (\<exists>t'. normalize_event_inplace dumps t event2 = Inr (t', event2) \<and>
                  st_heap t' event2 = st_heap s' event))"
proof -
  let ?s' = "s\<lparr>st_heap := (st_heap s)(event := normalize_event dumps (st_heap s event))\<rparr>"
  have same: "?s' = s \<longleftrightarrow> normalize_event dumps (st_heap s event) = st_heap s event"
  proof
    assume "?s' = s"
    then have "st_heap ?s' event = st_heap s event" by simp
    then show "normalize_event dumps (st_heap s event) = st_heap s event" by simp
  next
    assume "normalize_event dumps (st_heap s event) = st_heap s event"
    then show "?s' = s" by simp
  qed
  have other: "st_heap t event2 = st_heap s event \<longrightarrow>
      (\<exists>t'. normalize_event_inplace dumps t event2 = Inr (t', event2) \<and>
            st_heap t' event2 = st_heap ?s' event)"
    by (simp add: normalize_event_inplace_eq)
  have "normalize_event_inplace dumps s event = Inr (?s', event) \<and>
        st_io ?s' = st_io s \<and>
        st_heap ?s' event = normalize_event dumps (st_heap s event) \<and>
        (\<forall>r. r \<noteq> event \<longrightarrow> st_heap ?s' r = st_heap s r)"
    by (simp add: normalize_event_inplace_eq)
  with same other show ?thesis by blast
qed

theorem normalize_event_inplace_effect_witness:
  "\<not> isl (normalize_event_inplace example_dumps example_state 0) \<and>
   snd (projr (normalize_event_inplace example_dumps example_state 0)) = 0 \<and>
   st_io (fst (projr (normalize_event_inplace example_dumps example_state 0))) = st_io example_state \<and>
   st_heap (fst (projr (normalize_event_inplace example_dumps example_state 0))) 0 =
     normalize_event example_dumps example_event \<and>
   (1::nat) \<noteq> 0 \<and>
   st_heap (fst (projr (normalize_event_inplace example_dumps example_state 0))) 1 =
     example_scalar_event \<and>
   fst (projr (normalize_event_inplace example_dumps example_state 0)) \<noteq> example_state \<and>
   normalize_event_inplace example_dumps example_state 1 = Inr (example_state, 1) \<and>
   st_heap other_state 5 = st_heap example_state 0 \<and>
   \<not> isl (normalize_event_inplace example_dumps other_state 5) \<and>
   st_heap (fst (projr (normalize_event_inplace example_dumps other_state 5))) 5 =
     st_heap (fst (projr (normalize_event_inplace example_dumps example_state 0))) 0"
proof -
  have ne: "normalize_event example_dumps (st_heap example_state 0) \<noteq> st_heap example_state 0"
    by (simp add: example_state_def example_heap_def normalize_event_def promote_input_def
      example_event_def dict_get_def dict_get_none_def dict_set_def dict_pop_def AList.delete_eq
      serialize_nested_def serialize_step_def example_dumps_def)
  have sc: "normalize_event example_dumps (st_heap example_state 1) = st_heap example_state 1"
    by (simp add: example_state_def example_heap_def normalize_event_def promote_input_def
      example_scalar_event_def dict_get_def serialize_nested_def serialize_step_def)
  have eq: "st_heap other_state 5 = st_heap example_state 0"
    by (simp add: other_state_def example_state_def example_heap_def)
  from normalize_event_inplace_effect [of example_dumps example_state 0 other_state 5] eq
  obtain s' t' where
    a: "normalize_event_inplace example_dumps example_state 0 = Inr (s', 0)"
    and b: "st_io s' = st_io example_state"
    and c: "st_heap s' 0 = normalize_event example_dumps (st_heap example_state 0)"
    and d: "\<forall>r. r \<noteq> 0 \<longrightarrow> st_heap s' r = st_heap example_state r"
    and e: "s' = example_state \<longleftrightarrow>
            normalize_event example_dumps (st_heap example_state 0) = st_heap example_state 0"
    and f: "normalize_event_inplace example_dumps other_state 5 = Inr (t', 5)"
    and g: "st_heap t' 5 = st_heap s' 0"
    by blast
  from normalize_event_inplace_effect [of example_dumps example_state 1 other_state 5] sc
  obtain u where
    h: "normalize_event_inplace example_dumps example_state 1 = Inr (u, 1)" and "u = example_state"
    by blast
  then have i: "normalize_event_inplace example_dumps example_state 1 = Inr (example_state, 1)"
    by simp
  have one: "st_heap s' 1 = example_scalar_event"
    using d by (simp add: example_state_def example_heap_def)
  have zero: "st_heap example_state 0 = example_event"
    by (simp add: example_state_def example_heap_def)
  show ?thesis
    using a b c e f g i ne eq one zero by simp
qed

section \<open>Properties of write_to_csv\<close>

lemma finite_fieldnames:
  "finite s \<Longrightarrow> finite (fold (\<lambda>event s. s \<union> set (dict_keys event)) evs s)"
  by (induction evs arbitrary: s) auto

lemma fold_fieldnames:
  "fold (\<lambda>event s. s \<union> set (dict_keys event)) evs s = s \<union> (\<Union>event \<in> set evs. set (dict_keys event))"
  by (induction evs arbitrary: s) auto

lemma csv_table_of_header:
  "sorted (header (csv_table_of dumps events)) \<and> distinct (header (csv_table_of dumps events)) \<and>
   set (header (csv_table_of dumps events)) =
     (\<Union>event \<in> set events. set (dict_keys (normalize_event dumps event)))"
  by (simp add: csv_table_of_def Let_def finite_fieldnames fold_fieldnames)

lemma csv_table_of_rows:
  "rows (csv_table_of dumps events) =
     map (\<lambda>event. dict_to_list (header (csv_table_of dumps events)) (normalize_event dumps event)) events"
  by (simp add: csv_table_of_def Let_def)

lemma write_to_csv_Inr:
  assumes "events \<noteq> []"
    and "write_to_csv dumps env io events directory object_id = (io', Inr ())"
  shows "fs_files io' (csv_filename directory object_id) = Some (csv_table_of dumps events)"
  using assms
  by (auto simp: write_to_csv_def write_to_csv_except_def os_makedirs_def write_file_def Let_def
      logger_def split: option.splits sum.splits if_splits)

text \<open>
  Claim C6. When \<open>write_to_csv\<close> returns normally for a non-empty list of events, the
  file of the object holds a table whose header is sorted, has no repeated name and
  consists of exactly the field names of the normalized records, and whose rows are,
  record by record, the cells for every name of the header in turn: the record's value
  under that name, or the empty string when the record has no such field.
\<close>

theorem write_to_csv_table:
  assumes "events \<noteq> []"
    and "write_to_csv dumps env io events directory object_id = (io', Inr ())"
  shows "\<exists>table. fs_files io' (csv_filename directory object_id) = Some table \<and>
           sorted (header table) \<and> distinct (header table) \<and>
           set (header table) = (\<Union>event \<in> set events. set (dict_keys (normalize_event dumps event))) \<and>
           rows table =
             map (\<lambda>event. map (\<lambda>key. case dict_get (normalize_event dumps event) key of
                                        None \<Rightarrow> JStr [] | Some v \<Rightarrow> v) (header table)) events"
proof -
  have "rows (csv_table_of dumps events) =
      map (\<lambda>event. map (\<lambda>key. case dict_get (normalize_event dumps event) key of
                                        None \<Rightarrow> JStr [] | Some v \<Rightarrow> v) (header (csv_table_of dumps events))) events"
    by (simp add: csv_table_of_rows dict_to_list_def)
  with write_to_csv_Inr [OF assms] csv_table_of_header [of dumps events]
  show ?thesis by blast
qed

lemma ab_table:
  "csv_table_of example_dumps ab_events =
     \<lparr>header = [''a'', ''b''], rows = [[JInt 1, JStr []], [JStr [], JInt 2]]\<rparr>"
  by code_simp

lemma ab_write:
  "write_to_csv example_dumps example_env example_io ab_events ''experiment'' ''Y'' =
     (example_io\<lparr>fs_dirs := {''braintrust_data'', ''braintrust_data/experiment''},
                 fs_files := (fs_files example_io)(''braintrust_data/experiment/Y.csv'' \<mapsto>
                    csv_table_of example_dumps ab_events)\<rparr>, Inr ())"
proof -
  have "ab_events \<noteq> []" by (simp add: ab_events_def)
  then show ?thesis
    by (simp add: write_to_csv_def os_makedirs_def write_file_def example_env_def Let_def
        csv_filename_def example_io_def insert_commute)
qed

theorem write_to_csv_table_witness:
  "ab_events \<noteq> [] \<and>
   snd (write_to_csv example_dumps example_env example_io ab_events ''experiment'' ''Y'') = Inr () \<and>
   fs_files (fst (write_to_csv example_dumps example_env example_io ab_events ''experiment'' ''Y''))
     ''braintrust_data/experiment/Y.csv'' =
     Some \<lparr>header = [''a'', ''b''], rows = [[JInt 1, JStr []], [JStr [], JInt 2]]\<rparr> \<and>
   sorted [''a'', ''b'']"
proof -
  have h1: "ab_events \<noteq> []" by (simp add: ab_events_def)
  have h2: "write_to_csv example_dumps example_env example_io ab_events ''experiment'' ''Y'' =
     (fst (write_to_csv example_dumps example_env example_io ab_events ''experiment'' ''Y''), Inr ())"
    by (simp add: ab_write)
  from write_to_csv_table [OF h1 h2] obtain t where
    t: "fs_files (fst (write_to_csv example_dumps example_env example_io ab_events ''experiment'' ''Y''))
          (csv_filename ''experiment'' ''Y'') = Some t" and s: "sorted (header t)"
    by blast
  from t have "t = \<lparr>header = [''a'', ''b''], rows = [[JInt 1, JStr []], [JStr [], JInt 2]]\<rparr>"
    by (simp add: ab_write csv_filename_def ab_table)
  with s h1 show ?thesis by (simp add: ab_write ab_table)
qed

text \<open>
  Claim C9, as stated: a call with an empty list changes nothing observable and is never
  an error. With nothing on disk the call creates the two directories and logs a
  warning; where the directories cannot be created it raises.
\<close>

theorem write_to_csv_empty_counterexample:
  "fs_dirs example_io = {} \<and>
   fs_dirs (fst (write_to_csv example_dumps example_env example_io [] ''experiment'' ''Z'')) =
     {''braintrust_data'', ''braintrust_data/experiment''} \<and>
   logs example_io = [] \<and>
   logs (fst (write_to_csv example_dumps example_env example_io [] ''experiment'' ''Z'')) =
     [(WARNING, NoEventsFound ''Z'')] \<and>
   snd (write_to_csv example_dumps readonly_env example_io [] ''experiment'' ''Z'') =
     Inl UnboundLocalError"
  by (simp add: write_to_csv_def os_makedirs_def example_env_def readonly_env_def example_io_def
      logger_def write_to_csv_except_def insert_commute)

text \<open>
  Claim C9, amended. With an empty list \<open>write_to_csv\<close> writes no file: the files are as
  before. It returns normally exactly when both output directories can be created;
  it then has created them and logged one warning that names the object, and changed
  nothing else. In \<open>download_data\<close> an object whose fetch returns no events does not reach
  the writer: its id is appended to \<open>objects_without_events\<close>, the failure lists and
  the file system stay as they are.
\<close>

theorem write_to_csv_empty:
  "fs_files (fst (write_to_csv dumps env io [] directory object_id)) = fs_files io \<and>
   (snd (write_to_csv dumps env io [] directory object_id) = Inr () \<longleftrightarrow>
      makedirs_error env ''braintrust_data'' = None \<and>
      makedirs_error env (''braintrust_data/'' @ directory) = None) \<and>
   (snd (write_to_csv dumps env io [] directory object_id) = Inr () \<longrightarrow>
      fst (write_to_csv dumps env io [] directory object_id) =
        io\<lparr>logs := logs io @ [(WARNING, NoEventsFound object_id)],
           fs_dirs := insert (''braintrust_data/'' @ directory)
                        (insert ''braintrust_data'' (fs_dirs io))\<rparr>) \<and>
   (fetch_events (event_pages env endpoint (obj_id obj)) (obj_id obj) endpoint 100 =
      Some (reqs, lgs, Inr []) \<longrightarrow>
      process_object dumps env endpoint (io, vars) obj =
        Some (io\<lparr>sent := sent io @ reqs, logs := logs io @ lgs\<rparr>,
              vars\<lparr>objects_without_events := objects_without_events vars @ [obj_id obj]\<rparr>))"
  by (auto simp: write_to_csv_def os_makedirs_def write_to_csv_except_def logger_def
      process_object_def Let_def split: option.splits)

theorem write_to_csv_empty_witness:
  "snd (write_to_csv example_dumps example_env example_io [] ''experiment'' ''Z'') = Inr () \<and>
   fst (write_to_csv example_dumps example_env example_io [] ''experiment'' ''Z'') =
     example_io\<lparr>logs := [(WARNING, NoEventsFound ''Z'')],
                fs_dirs := {''braintrust_data/experiment'', ''braintrust_data''}\<rparr> \<and>
   fetch_events (event_pages example_env ''experiment'' ''Z'') ''Z'' ''experiment'' 100 =
     Some ([FetchRequest ''experiment'' ''Z'' 100 None], [], Inr []) \<and>
   process_object example_dumps example_env ''experiment'' (example_io, initial_vars)
       \<lparr>obj_id = ''Z'', obj_attrs = []\<rparr> =
     Some (example_io\<lparr>sent := [FetchRequest ''experiment'' ''Z'' 100 None]\<rparr>,
           initial_vars\<lparr>objects_without_events := [''Z'']\<rparr>)"
proof -
  have m: "makedirs_error example_env ''braintrust_data'' = None \<and>
           makedirs_error example_env (''braintrust_data/'' @ ''experiment'') = None"
    by (simp add: example_env_def)
  have f: "fetch_events (event_pages example_env ''experiment'' (obj_id \<lparr>obj_id = ''Z'', obj_attrs = []\<rparr>))
             (obj_id \<lparr>obj_id = ''Z'', obj_attrs = ([] :: unit pydict)\<rparr>) ''experiment'' 100 =
           Some ([FetchRequest ''experiment'' ''Z'' 100 None], [], Inr [])"
    by (simp add: fetch_events_def example_env_def events_of_def)
  show ?thesis
    using m f write_to_csv_empty [of example_dumps example_env example_io "''experiment''" "''Z''"
        "''experiment''" "\<lparr>obj_id = ''Z'', obj_attrs = []\<rparr>"
        "[FetchRequest ''experiment'' ''Z'' 100 None]" "[]" initial_vars]
    by (simp add: example_io_def initial_vars_def)
qed

section \<open>Properties of fetch_events\<close>





section \<open>Properties of fetch_object_list\<close>





section \<open>Properties of download_data\<close>

lemma write_to_csv_result:
  "snd (write_to_csv dumps env io events directory object_id) =
   written dumps env events directory object_id"
  by (simp add: written_def write_to_csv_def os_makedirs_def write_file_def Let_def
      write_to_csv_except_def logger_def split: option.splits)

lemma write_to_csv_sent:
  "sent (fst (write_to_csv dumps env io events directory object_id)) = sent io"
  by (simp add: write_to_csv_def os_makedirs_def write_file_def Let_def
      write_to_csv_except_def logger_def split: option.splits)

lemma write_to_csv_logs:
  "\<exists>new. logs (fst (write_to_csv dumps env io events directory object_id)) = logs io @ new"
  by (simp add: write_to_csv_def os_makedirs_def write_file_def Let_def
      write_to_csv_except_def logger_def split: option.splits)

lemma write_to_csv_files_other:
  "path \<noteq> csv_filename directory object_id \<Longrightarrow>
   fs_files (fst (write_to_csv dumps env io events directory object_id)) path = fs_files io path"
  by (simp add: write_to_csv_def os_makedirs_def write_file_def Let_def
      write_to_csv_except_def logger_def split: option.splits)

lemma write_to_csv_files_own:
  "events \<noteq> [] \<Longrightarrow> written dumps env events directory object_id = Inr () \<Longrightarrow>
   fs_files (fst (write_to_csv dumps env io events directory object_id))
     (csv_filename directory object_id) = Some (csv_table_of dumps events)"
  by (auto simp: written_def write_to_csv_def os_makedirs_def write_file_def Let_def
      write_to_csv_except_def logger_def empty_io_def split: option.splits if_splits)


lemma fetch_events_loop_first:
  "fetch_events_loop object_id endpoint limit rs cursor acc = Some (reqs, lgs, r) \<Longrightarrow>
   FetchRequest endpoint object_id limit (if truthy cursor then cursor else None) \<in> set reqs"
  by (cases rs; cases "hd rs") (auto simp: Let_def split: if_splits option.splits)

lemma fetch_events_first:
  "fetch_events rs object_id endpoint limit = Some (reqs, lgs, r) \<Longrightarrow>
   FetchRequest endpoint object_id limit None \<in> set reqs"
  using fetch_events_loop_first [of object_id endpoint limit rs None "[]" reqs lgs r]
  by (simp add: fetch_events_def)

lemma csv_filename_inj: "csv_filename directory a = csv_filename directory b \<Longrightarrow> a = b"
  by (simp add: csv_filename_def)

text \<open>How the three lists change when one object has been processed.\<close>

lemma process_object_step:
  assumes "fetch_events (event_pages env endpoint (obj_id obj)) (obj_id obj) endpoint 100 =
           Some (reqs, lgs, r)"
  shows "\<exists>io' new.
           process_object dumps env endpoint (io, vars) obj =
             Some (io',
               (case caught dumps env endpoint (obj_id obj) of
                  Some e \<Rightarrow> vars\<lparr>failed_endpoints := failed_endpoints vars @ [endpoint],
                                  failed_objects := failed_objects vars @ [obj_id obj]\<rparr>
                | None \<Rightarrow>
                    if no_events env endpoint (obj_id obj)
                    then vars\<lparr>objects_without_events := objects_without_events vars @ [obj_id obj]\<rparr>
                    else vars)) \<and>
           sent io' = sent io @ reqs \<and>
           logs io' = logs io @ new \<and>
           (\<forall>e. caught dumps env endpoint (obj_id obj) = Some e \<longrightarrow>
                (ERROR, ErrProcessing endpoint (obj_id obj) e) \<in> set new) \<and>
           (\<forall>path. path \<noteq> csv_filename endpoint (obj_id obj) \<longrightarrow>
                fs_files io' path = fs_files io path) \<and>
           (\<forall>events. r = Inr events \<and> events \<noteq> [] \<and>
                caught dumps env endpoint (obj_id obj) = None \<longrightarrow>
                fs_files io' (csv_filename endpoint (obj_id obj)) =
                  Some (csv_table_of dumps events))"
proof (cases r)
  case (Inl e)
  then have c: "caught dumps env endpoint (obj_id obj) = Some e"
    using assms by (simp add: caught_def fetched_def)
  show ?thesis
    using assms Inl c
    by (simp add: process_object_def process_except_def logger_def)
next
  case (Inr events)
  note r = this
  have f: "fetched env endpoint (obj_id obj) = Some (Inr events)"
    using assms r by (simp add: fetched_def)
  show ?thesis
  proof (cases "events = []")
    case True
    then have c: "caught dumps env endpoint (obj_id obj) = None"
      and n: "no_events env endpoint (obj_id obj)"
      using f by (simp_all add: caught_def no_events_def)
    show ?thesis
      using assms r True c n by (simp add: process_object_def)
  next
    case False
    then have n: "\<not> no_events env endpoint (obj_id obj)"
      using f by (simp add: no_events_def)
    let ?io1 = "io\<lparr>sent := sent io @ reqs, logs := logs io @ lgs\<rparr>"
    let ?w = "write_to_csv dumps env ?io1 events endpoint (obj_id obj)"
    obtain new where new: "logs (fst ?w) = logs ?io1 @ new"
      using write_to_csv_logs by blast
    have snt: "sent (fst ?w) = sent ?io1" by (rule write_to_csv_sent)
    have fl: "\<forall>path. path \<noteq> csv_filename endpoint (obj_id obj) \<longrightarrow>
        fs_files (fst ?w) path = fs_files io path"
      using write_to_csv_files_other [of _ endpoint "obj_id obj" dumps env ?io1 events] by simp
    have res: "snd ?w = written dumps env events endpoint (obj_id obj)"
      by (rule write_to_csv_result)
    show ?thesis
    proof (cases "written dumps env events endpoint (obj_id obj)")
      case (Inl e)
      then have c: "caught dumps env endpoint (obj_id obj) = Some e"
        using f False by (simp add: caught_def)
      obtain io2 where w: "?w = (io2, Inl e)"
        using res Inl by (cases ?w) simp
      show ?thesis
        using assms r False c n w new snt fl Inl
        by (simp add: process_object_def process_except_def logger_def)
    next
      case (Inr u)
      then have c: "caught dumps env endpoint (obj_id obj) = None"
        using f False by (simp add: caught_def)
      obtain io2 where w: "?w = (io2, Inr u)"
        using res Inr by (cases ?w) simp
      have own: "fs_files (fst ?w) (csv_filename endpoint (obj_id obj)) =
          Some (csv_table_of dumps events)"
        using False Inr by (simp add: write_to_csv_files_own)
      show ?thesis
        using assms r False c n w new snt fl own Inr
        by (simp add: process_object_def)
    qed
  qed
qed


lemma fetched_Some:
  "fetched env endpoint object_id \<noteq> None \<Longrightarrow>
   \<exists>reqs lgs r. fetch_events (event_pages env endpoint object_id) object_id endpoint 100 =
                  Some (reqs, lgs, r) \<and> fetched env endpoint object_id = Some r"
  by (auto simp: fetched_def)

text \<open>The loop returns once every fetch does, and the lists it ends with are read off
  the objects one by one.\<close>

lemma process_objects_vars:
  assumes "\<forall>obj \<in> set objs. fetched env endpoint (obj_id obj) \<noteq> None"
  shows "\<exists>io'. process_objects dumps env endpoint objs (io, vars) =
           Some (io',
             vars\<lparr>failed_endpoints := failed_endpoints vars @
                      replicate (length (filter (\<lambda>oid. caught dumps env endpoint oid \<noteq> None)
                                           (map obj_id objs))) endpoint,
                  failed_objects := failed_objects vars @
                      filter (\<lambda>oid. caught dumps env endpoint oid \<noteq> None) (map obj_id objs),
                  objects_without_events := objects_without_events vars @
                      filter (no_events env endpoint) (map obj_id objs)\<rparr>)"
  using assms
proof (induction objs arbitrary: io vars)
  case Nil
  then show ?case by simp
next
  case (Cons obj objs)
  from Cons.prems obtain reqs lgs r where
    f: "fetch_events (event_pages env endpoint (obj_id obj)) (obj_id obj) endpoint 100 =
        Some (reqs, lgs, r)"
    using fetched_Some [of env endpoint "obj_id obj"] by auto
  from process_object_step [OF f, of dumps io vars] obtain io1 vars1 where
    step: "process_object dumps env endpoint (io, vars) obj = Some (io1, vars1)"
    and v1: "vars1 =
      (case caught dumps env endpoint (obj_id obj) of
         Some e \<Rightarrow> vars\<lparr>failed_endpoints := failed_endpoints vars @ [endpoint],
                         failed_objects := failed_objects vars @ [obj_id obj]\<rparr>
       | None \<Rightarrow>
           if no_events env endpoint (obj_id obj)
           then vars\<lparr>objects_without_events := objects_without_events vars @ [obj_id obj]\<rparr>
           else vars)"
    by blast
  from Cons.prems have "\<forall>obj \<in> set objs. fetched env endpoint (obj_id obj) \<noteq> None" by simp
  from Cons.IH [OF this, of io1 vars1] obtain io' where
    rest: "process_objects dumps env endpoint objs (io1, vars1) =
      Some (io',
        vars1\<lparr>failed_endpoints := failed_endpoints vars1 @
                 replicate (length (filter (\<lambda>oid. caught dumps env endpoint oid \<noteq> None)
                                      (map obj_id objs))) endpoint,
              failed_objects := failed_objects vars1 @
                 filter (\<lambda>oid. caught dumps env endpoint oid \<noteq> None) (map obj_id objs),
              objects_without_events := objects_without_events vars1 @
                 filter (no_events env endpoint) (map obj_id objs)\<rparr>)"
    by blast
  have excl: "caught dumps env endpoint (obj_id obj) \<noteq> None \<Longrightarrow>
              \<not> no_events env endpoint (obj_id obj)"
    by (auto simp: caught_def no_events_def)
  show ?case
  proof (cases "caught dumps env endpoint (obj_id obj)")
    case None
    then show ?thesis using step rest v1 by (cases "no_events env endpoint (obj_id obj)") simp_all
  next
    case (Some e)
    with excl have "\<not> no_events env endpoint (obj_id obj)" by simp
    then show ?thesis using step rest v1 Some by simp
  qed
qed

lemma process_objects_trace:
  assumes "process_objects dumps env endpoint objs (io, vars) = Some (io', vars')"
  shows "set (sent io) \<subseteq> set (sent io') \<and>
         (\<forall>obj \<in> set objs. FetchRequest endpoint (obj_id obj) 100 None \<in> set (sent io')) \<and>
         set (logs io) \<subseteq> set (logs io') \<and>
         (\<forall>obj \<in> set objs. \<forall>e. caught dumps env endpoint (obj_id obj) = Some e \<longrightarrow>
              (ERROR, ErrProcessing endpoint (obj_id obj) e) \<in> set (logs io'))"
  using assms
proof (induction objs arbitrary: io vars)
  case Nil
  then show ?case by simp
next
  case (Cons obj objs)
  from Cons.prems obtain io1 vars1 where
    step: "process_object dumps env endpoint (io, vars) obj = Some (io1, vars1)"
    and rest: "process_objects dumps env endpoint objs (io1, vars1) = Some (io', vars')"
    by (auto split: option.splits)
  from step obtain reqs lgs r where
    f: "fetch_events (event_pages env endpoint (obj_id obj)) (obj_id obj) endpoint 100 =
        Some (reqs, lgs, r)"
    by (auto simp: process_object_def split: option.splits)
  from process_object_step [OF f, of dumps io vars] step obtain new where
    s1: "sent io1 = sent io @ reqs" and l1: "logs io1 = logs io @ new"
    and e1: "\<forall>e. caught dumps env endpoint (obj_id obj) = Some e \<longrightarrow>
                (ERROR, ErrProcessing endpoint (obj_id obj) e) \<in> set new"
    by auto
  have first: "FetchRequest endpoint (obj_id obj) 100 None \<in> set reqs"
    using f by (rule fetch_events_first)
  from Cons.IH [OF rest] s1 l1 e1 first show ?case by auto
qed

lemma process_objects_files:
  assumes "process_objects dumps env endpoint objs (io, vars) = Some (io', vars')"
    and "fetched env endpoint oid = Some (Inr events)" and "events \<noteq> []"
    and "caught dumps env endpoint oid = None"
    and "oid \<in> obj_id ` set objs \<or>
         fs_files io (csv_filename endpoint oid) = Some (csv_table_of dumps events)"
  shows "fs_files io' (csv_filename endpoint oid) = Some (csv_table_of dumps events)"
  using assms(1,5)
proof (induction objs arbitrary: io vars)
  case Nil
  then show ?case by simp
next
  case (Cons obj objs)
  from Cons.prems(1) obtain io1 vars1 where
    step: "process_object dumps env endpoint (io, vars) obj = Some (io1, vars1)"
    and rest: "process_objects dumps env endpoint objs (io1, vars1) = Some (io', vars')"
    by (auto split: option.splits)
  from step obtain reqs lgs r where
    f: "fetch_events (event_pages env endpoint (obj_id obj)) (obj_id obj) endpoint 100 =
        Some (reqs, lgs, r)"
    by (auto simp: process_object_def split: option.splits)
  from process_object_step [OF f, of dumps io vars] step have
    other: "\<forall>path. path \<noteq> csv_filename endpoint (obj_id obj) \<longrightarrow>
        fs_files io1 path = fs_files io path"
    and own: "\<forall>events. r = Inr events \<and> events \<noteq> [] \<and>
        caught dumps env endpoint (obj_id obj) = None \<longrightarrow>
        fs_files io1 (csv_filename endpoint (obj_id obj)) = Some (csv_table_of dumps events)"
    by auto
  have "oid \<in> obj_id ` set objs \<or>
        fs_files io1 (csv_filename endpoint oid) = Some (csv_table_of dumps events)"
  proof (cases "obj_id obj = oid")
    case True
    with f assms(2) have "r = Inr events" by (simp add: fetched_def)
    with own assms(3,4) True show ?thesis by simp
  next
    case False
    then have "csv_filename endpoint (obj_id obj) \<noteq> csv_filename endpoint oid"
      using csv_filename_inj by blast
    then have "fs_files io1 (csv_filename endpoint oid) = fs_files io (csv_filename endpoint oid)"
      using other by simp
    with Cons.prems(2) False show ?thesis by auto
  qed
  from Cons.IH [OF rest this] show ?case .
qed


lemma fetch_object_list_loop_requests:
  "fetch_object_list_loop endpoint limit rs params acc = Some (reqs, lgs, r) \<Longrightarrow>
   \<forall>q \<in> set reqs. \<exists>ps. q = ListRequest endpoint ps"
proof (induction rs arbitrary: params acc reqs)
  case Nil
  then show ?case by simp
next
  case (Cons a rs)
  show ?case
  proof (cases a)
    case (Inl e)
    with Cons.prems show ?thesis by auto
  next
    case (Inr data)
    with Cons.prems Cons.IH show ?thesis
      by (auto simp: Let_def split: if_splits option.splits)
  qed
qed

lemma download_data_listing_fails:
  assumes "fetch_object_list (list_pages env endpoint) endpoint 10 None project_id project_name =
           Some (reqs, lgs, Inl e)"
  shows "download_data dumps env io endpoint project_id project_name =
           Some (io\<lparr>sent := sent io @ reqs,
                    logs := logs io @ lgs @ [(ERROR, ErrDownloading endpoint e),
                                             (ERROR, FailedObjects endpoint [])]\<rparr>, Inl e) \<and>
         (\<forall>q \<in> set reqs. \<exists>ps. q = ListRequest endpoint ps)"
  using assms fetch_object_list_loop_requests [of endpoint 10 "list_pages env endpoint"
      "initial_params 10 None project_id project_name" "[]" reqs lgs "Inl e"]
  by (simp add: download_data_def logger_def initial_vars_def fetch_object_list_def)

lemma download_data_listing_returns:
  assumes "fetch_object_list (list_pages env endpoint) endpoint 10 None project_id project_name =
           Some (reqs, lgs, Inr objects_list)"
    and "\<forall>obj \<in> set objects_list. fetched env endpoint (obj_id obj) \<noteq> None"
  shows "\<exists>io2 vars.
           process_objects dumps env endpoint objects_list
             (io\<lparr>sent := sent io @ reqs, logs := logs io @ lgs\<rparr>, initial_vars) = Some (io2, vars) \<and>
           download_data dumps env io endpoint project_id project_name =
             Some (io2\<lparr>logs := logs io2 @ run_summary endpoint objects_list vars\<rparr>, Inr ()) \<and>
           failed_objects vars =
             filter (\<lambda>oid. caught dumps env endpoint oid \<noteq> None) (map obj_id objects_list) \<and>
           failed_endpoints vars = replicate (length (failed_objects vars)) endpoint \<and>
           objects_without_events vars =
             filter (no_events env endpoint) (map obj_id objects_list)"
proof -
  let ?io1 = "io\<lparr>sent := sent io @ reqs, logs := logs io @ lgs\<rparr>"
  from process_objects_vars [OF assms(2), of dumps ?io1 initial_vars] obtain io2 vars where
    run: "process_objects dumps env endpoint objects_list (?io1, initial_vars) = Some (io2, vars)"
    and vars: "vars = initial_vars
      \<lparr>failed_endpoints := failed_endpoints initial_vars @
          replicate (length (filter (\<lambda>oid. caught dumps env endpoint oid \<noteq> None)
                               (map obj_id objects_list))) endpoint,
       failed_objects := failed_objects initial_vars @
          filter (\<lambda>oid. caught dumps env endpoint oid \<noteq> None) (map obj_id objects_list),
       objects_without_events := objects_without_events initial_vars @
          filter (no_events env endpoint) (map obj_id objects_list)\<rparr>"
    by blast
  have "download_data dumps env io endpoint project_id project_name =
          Some (io2\<lparr>logs := logs io2 @ run_summary endpoint objects_list vars\<rparr>, Inr ())"
    using assms(1) run by (simp add: download_data_def)
  with run vars show ?thesis by (simp add: initial_vars_def)
qed

text \<open>
  Claim C1. When the listing raises \<open>e\<close>, \<open>download_data\<close> raises \<open>e\<close> after logging it:
  only listing requests have been sent, and the file system is as it was. When the
  listing returns (and every fetch returns), \<open>download_data\<close> returns normally whatever
  happened to the objects. Every object of the list has had its fetch request. The
  list of failed objects holds, in order, exactly the objects whose own fetch or write
  raised; for each of them the exception was logged with the endpoint and the object's
  id. Every object whose own fetch returned events and whose own write did not raise
  has its table on disk.
\<close>

theorem download_data_fault_isolation:
  "(fetch_object_list (list_pages env endpoint) endpoint 10 None project_id project_name =
      Some (reqs, lgs, Inl e) \<longrightarrow>
    download_data dumps env io endpoint project_id project_name =
      Some (io\<lparr>sent := sent io @ reqs,
               logs := logs io @ lgs @ [(ERROR, ErrDownloading endpoint e),
                                        (ERROR, FailedObjects endpoint [])]\<rparr>, Inl e) \<and>
    (\<forall>q \<in> set reqs. \<exists>ps. q = ListRequest endpoint ps)) \<and>
   (fetch_object_list (list_pages env endpoint) endpoint 10 None project_id project_name =
      Some (reqs, lgs, Inr objects_list) \<and>
    (\<forall>obj \<in> set objects_list. fetched env endpoint (obj_id obj) \<noteq> None) \<longrightarrow>
    (\<exists>io2 vars.
       process_objects dumps env endpoint objects_list
         (io\<lparr>sent := sent io @ reqs, logs := logs io @ lgs\<rparr>, initial_vars) = Some (io2, vars) \<and>
       download_data dumps env io endpoint project_id project_name =
         Some (io2\<lparr>logs := logs io2 @ run_summary endpoint objects_list vars\<rparr>, Inr ()) \<and>
       failed_objects vars =
         filter (\<lambda>oid. caught dumps env endpoint oid \<noteq> None) (map obj_id objects_list) \<and>
       (\<forall>obj \<in> set objects_list.
          FetchRequest endpoint (obj_id obj) 100 None \<in> set (sent io2)) \<and>
       (\<forall>obj \<in> set objects_list. \<forall>e.
          caught dumps env endpoint (obj_id obj) = Some e \<longrightarrow>
          (ERROR, ErrProcessing endpoint (obj_id obj) e) \<in> set (logs io2)) \<and>
       (\<forall>obj \<in> set objects_list. \<forall>events.
          fetched env endpoint (obj_id obj) = Some (Inr events) \<and> events \<noteq> [] \<and>
          caught dumps env endpoint (obj_id obj) = None \<longrightarrow>
          fs_files io2 (csv_filename endpoint (obj_id obj)) = Some (csv_table_of dumps events))))"
proof (intro conjI impI)
  assume "fetch_object_list (list_pages env endpoint) endpoint 10 None project_id project_name =
      Some (reqs, lgs, Inl e)"
  from download_data_listing_fails [OF this, of dumps io]
  show "download_data dumps env io endpoint project_id project_name =
      Some (io\<lparr>sent := sent io @ reqs,
               logs := logs io @ lgs @ [(ERROR, ErrDownloading endpoint e),
                                        (ERROR, FailedObjects endpoint [])]\<rparr>, Inl e)"
    and "\<forall>q \<in> set reqs. \<exists>ps. q = ListRequest endpoint ps"
    by simp_all
next
  assume a: "fetch_object_list (list_pages env endpoint) endpoint 10 None project_id project_name =
      Some (reqs, lgs, Inr objects_list) \<and>
    (\<forall>obj \<in> set objects_list. fetched env endpoint (obj_id obj) \<noteq> None)"
  let ?io1 = "io\<lparr>sent := sent io @ reqs, logs := logs io @ lgs\<rparr>"
  from a download_data_listing_returns [of env endpoint project_id project_name reqs lgs
      objects_list dumps io]
  obtain io2 vars where
    run: "process_objects dumps env endpoint objects_list (?io1, initial_vars) = Some (io2, vars)"
    and dd: "download_data dumps env io endpoint project_id project_name =
         Some (io2\<lparr>logs := logs io2 @ run_summary endpoint objects_list vars\<rparr>, Inr ())"
    and fo: "failed_objects vars =
         filter (\<lambda>oid. caught dumps env endpoint oid \<noteq> None) (map obj_id objects_list)"
    by blast
  note tr = process_objects_trace [OF run]
  have files: "\<forall>obj \<in> set objects_list. \<forall>events.
          fetched env endpoint (obj_id obj) = Some (Inr events) \<and> events \<noteq> [] \<and>
          caught dumps env endpoint (obj_id obj) = None \<longrightarrow>
          fs_files io2 (csv_filename endpoint (obj_id obj)) = Some (csv_table_of dumps events)"
    using process_objects_files [OF run] by blast
  show "\<exists>io2 vars.
       process_objects dumps env endpoint objects_list (?io1, initial_vars) = Some (io2, vars) \<and>
       download_data dumps env io endpoint project_id project_name =
         Some (io2\<lparr>logs := logs io2 @ run_summary endpoint objects_list vars\<rparr>, Inr ()) \<and>
       failed_objects vars =
         filter (\<lambda>oid. caught dumps env endpoint oid \<noteq> None) (map obj_id objects_list) \<and>
       (\<forall>obj \<in> set objects_list.
          FetchRequest endpoint (obj_id obj) 100 None \<in> set (sent io2)) \<and>
       (\<forall>obj \<in> set objects_list. \<forall>e.
          caught dumps env endpoint (obj_id obj) = Some e \<longrightarrow>
          (ERROR, ErrProcessing endpoint (obj_id obj) e) \<in> set (logs io2)) \<and>
       (\<forall>obj \<in> set objects_list. \<forall>events.
          fetched env endpoint (obj_id obj) = Some (Inr events) \<and> events \<noteq> [] \<and>
          caught dumps env endpoint (obj_id obj) = None \<longrightarrow>
          fs_files io2 (csv_filename endpoint (obj_id obj)) = Some (csv_table_of dumps events))"
    using run dd fo tr files by blast
qed


lemma example_listing:
  "fetch_object_list (list_pages example_env ''experiment'') ''experiment'' 10 None (Some ''P'') None =
     Some ([ListRequest ''experiment''
              \<lparr>p_limit = 10, p_starting_after = None, p_project_id = Some ''P'',
                 p_project_name = None\<rparr>], [], Inr example_objects)"
  by (simp add: fetch_object_list_def example_env_def initial_params_def objects_of_def
      example_objects_def Let_def)

lemma down_listing:
  "fetch_object_list (list_pages down_env ''experiment'') ''experiment'' 10 None (Some ''P'') None =
     Some ([ListRequest ''experiment''
              \<lparr>p_limit = 10, p_starting_after = None, p_project_id = Some ''P'',
                 p_project_name = None\<rparr>],
           [(ERROR, ErrFetchObjectList ''experiment'' (RequestException ''timeout''))],
           Inl (RequestException ''timeout''))"
  by (simp add: fetch_object_list_def down_env_def initial_params_def)

lemma example_fetched:
  "fetched example_env ''experiment'' ''X'' = Some (Inl (RequestException ''503''))"
  "fetched example_env ''experiment'' ''Y'' = Some (Inr ab_events)"
  "fetched example_env ''experiment'' ''Z'' = Some (Inr [])"
  by (simp_all add: fetched_def fetch_events_def example_env_def events_of_def Let_def)

lemma example_written:
  "events \<noteq> [] \<Longrightarrow> written example_dumps example_env events ''experiment'' object_id = Inr ()"
  by (simp add: written_def write_to_csv_def os_makedirs_def write_file_def example_env_def Let_def)

lemma example_caught:
  "caught example_dumps example_env ''experiment'' ''X'' = Some (RequestException ''503'')"
  "caught example_dumps example_env ''experiment'' ''Y'' = None"
  "caught example_dumps example_env ''experiment'' ''Z'' = None"
  by (simp_all add: caught_def example_fetched example_written ab_events_def)

lemma example_run_log:
  "map_option (logs \<circ> fst)
     (download_data example_dumps example_env example_io ''experiment'' (Some ''P'') None) =
   Some [(ERROR, ErrFetchEvents ''experiment'' ''X'' (RequestException ''503'')),
         (ERROR, ErrProcessing ''experiment'' ''X'' (RequestException ''503'')),
         (INFO, ProcessingComplete ''experiment''),
         (INFO, TotalObjectsProcessed 3),
         (INFO, ObjectsWithNoEvents 1),
         (INFO, IdsWithNoEvents [''Z'']),
         (ERROR, FailedEndpoints [''experiment''])]"
  by code_simp

lemma example_run_vars:
  "map_option snd
     (process_objects example_dumps example_env ''experiment'' example_objects
        (example_io, initial_vars)) =
   Some \<lparr>failed_endpoints = [''experiment''], failed_objects = [''X''],
         objects_without_events = [''Z'']\<rparr>"
  by code_simp

lemma example_run_file:
  "map_option (\<lambda>s. fs_files (fst s) ''braintrust_data/experiment/Y.csv'')
     (download_data example_dumps example_env example_io ''experiment'' (Some ''P'') None) =
   Some (Some \<lparr>header = [''a'', ''b''], rows = [[JInt 1, JStr []], [JStr [], JInt 2]]\<rparr>)"
  by code_simp


theorem download_data_fault_isolation_witness:
  "fetch_object_list (list_pages down_env ''experiment'') ''experiment'' 10 None (Some ''P'') None =
     Some ([ListRequest ''experiment''
              \<lparr>p_limit = 10, p_starting_after = None, p_project_id = Some ''P'',
                 p_project_name = None\<rparr>],
           [(ERROR, ErrFetchObjectList ''experiment'' (RequestException ''timeout''))],
           Inl (RequestException ''timeout'')) \<and>
   download_data example_dumps down_env example_io ''experiment'' (Some ''P'') None =
     Some (example_io
             \<lparr>sent := [ListRequest ''experiment''
                         \<lparr>p_limit = 10, p_starting_after = None, p_project_id = Some ''P'',
                            p_project_name = None\<rparr>],
               logs := [(ERROR, ErrFetchObjectList ''experiment'' (RequestException ''timeout'')),
                        (ERROR, ErrDownloading ''experiment'' (RequestException ''timeout'')),
                        (ERROR, FailedObjects ''experiment'' [])]\<rparr>,
           Inl (RequestException ''timeout'')) \<and>
   fetch_object_list (list_pages example_env ''experiment'') ''experiment'' 10 None (Some ''P'') None =
     Some ([ListRequest ''experiment''
              \<lparr>p_limit = 10, p_starting_after = None, p_project_id = Some ''P'',
                 p_project_name = None\<rparr>], [], Inr example_objects) \<and>
   list_all (\<lambda>obj. fetched example_env ''experiment'' (obj_id obj) \<noteq> None) example_objects \<and>
   caught example_dumps example_env ''experiment'' ''X'' = Some (RequestException ''503'') \<and>
   fetched example_env ''experiment'' ''Y'' = Some (Inr ab_events) \<and>
   caught example_dumps example_env ''experiment'' ''Y'' = None \<and>
   map_option snd
     (download_data example_dumps example_env example_io ''experiment'' (Some ''P'') None) =
     Some (Inr ()) \<and>
   map_option (logs \<circ> fst)
     (download_data example_dumps example_env example_io ''experiment'' (Some ''P'') None) =
     Some [(ERROR, ErrFetchEvents ''experiment'' ''X'' (RequestException ''503'')),
           (ERROR, ErrProcessing ''experiment'' ''X'' (RequestException ''503'')),
           (INFO, ProcessingComplete ''experiment''),
           (INFO, TotalObjectsProcessed 3),
           (INFO, ObjectsWithNoEvents 1),
           (INFO, IdsWithNoEvents [''Z'']),
           (ERROR, FailedEndpoints [''experiment''])] \<and>
   map_option (\<lambda>s. fs_files (fst s) ''braintrust_data/experiment/Y.csv'')
     (download_data example_dumps example_env example_io ''experiment'' (Some ''P'') None) =
     Some (Some \<lparr>header = [''a'', ''b''], rows = [[JInt 1, JStr []], [JStr [], JInt 2]]\<rparr>)"
proof -
  have h: "\<forall>obj \<in> set example_objects. fetched example_env ''experiment'' (obj_id obj) \<noteq> None"
    by (simp add: example_objects_def example_fetched)
  have d: "download_data example_dumps down_env example_io ''experiment'' (Some ''P'') None =
     Some (example_io
             \<lparr>sent := [ListRequest ''experiment''
                         \<lparr>p_limit = 10, p_starting_after = None, p_project_id = Some ''P'',
                            p_project_name = None\<rparr>],
               logs := [(ERROR, ErrFetchObjectList ''experiment'' (RequestException ''timeout'')),
                        (ERROR, ErrDownloading ''experiment'' (RequestException ''timeout'')),
                        (ERROR, FailedObjects ''experiment'' [])]\<rparr>,
           Inl (RequestException ''timeout''))"
    using down_listing
      download_data_fault_isolation [where env = down_env and endpoint = "''experiment''"
        and project_id = "Some ''P''" and project_name = None and dumps = example_dumps
        and io = example_io and e = "RequestException ''timeout''"
        and reqs = "[ListRequest ''experiment''
              \<lparr>p_limit = 10, p_starting_after = None, p_project_id = Some ''P'',
                 p_project_name = None\<rparr>]"
        and lgs = "[(ERROR, ErrFetchObjectList ''experiment'' (RequestException ''timeout''))]"]
    by (simp add: example_io_def)
  have r: "map_option snd
     (download_data example_dumps example_env example_io ''experiment'' (Some ''P'') None) =
     Some (Inr ())"
    using example_listing h
      download_data_fault_isolation [where env = example_env and endpoint = "''experiment''"
        and project_id = "Some ''P''" and project_name = None and dumps = example_dumps
        and io = example_io and objects_list = example_objects and lgs = "[]"
        and reqs = "[ListRequest ''experiment''
              \<lparr>p_limit = 10, p_starting_after = None, p_project_id = Some ''P'',
                 p_project_name = None\<rparr>]"]
    by auto
  show ?thesis
    using h d r down_listing example_listing example_fetched(2) example_caught(1,2)
      example_run_log example_run_file
    by (simp add: list_all_iff)
qed

text \<open>
  Claim C7, as stated: the end-of-run summary lists the identifiers of the failed
  objects. In the run below object \<open>X\<close> fails; what is logged once the loop has ended
  gives the number of objects, the number and the ids of the objects without events,
  and the endpoint name once per failed object, but neither the number nor the id of
  the failed object. The id \<open>X\<close> only stands in the record logged when the failure was
  caught.
\<close>

theorem run_summary_counterexample:
  "map_option snd
     (process_objects example_dumps example_env ''experiment'' example_objects
        (example_io, initial_vars)) =
     Some \<lparr>failed_endpoints = [''experiment''], failed_objects = [''X''],
           objects_without_events = [''Z'']\<rparr> \<and>
   run_summary ''experiment'' example_objects
     \<lparr>failed_endpoints = [''experiment''], failed_objects = [''X''],
        objects_without_events = [''Z'']\<rparr> =
     [(INFO, ProcessingComplete ''experiment''),
      (INFO, TotalObjectsProcessed 3),
      (INFO, ObjectsWithNoEvents 1),
      (INFO, IdsWithNoEvents [''Z'']),
      (ERROR, FailedEndpoints [''experiment''])] \<and>
   map_option (logs \<circ> fst)
     (download_data example_dumps example_env example_io ''experiment'' (Some ''P'') None) =
     Some [(ERROR, ErrFetchEvents ''experiment'' ''X'' (RequestException ''503'')),
           (ERROR, ErrProcessing ''experiment'' ''X'' (RequestException ''503'')),
           (INFO, ProcessingComplete ''experiment''),
           (INFO, TotalObjectsProcessed 3),
           (INFO, ObjectsWithNoEvents 1),
           (INFO, IdsWithNoEvents [''Z'']),
           (ERROR, FailedEndpoints [''experiment''])]"
  using example_run_vars example_run_log
  by (simp add: run_summary_def example_objects_def)

text \<open>
  Claim C7, amended. Once all objects have been processed, \<open>download_data\<close> logs: that
  processing is complete, the number of objects listed, the number of objects without
  events and, when there are any, the list of their ids; then, when any object failed,
  one record holding the endpoint name once per failed object. The ids of the failed
  objects are not in these records: each was logged, with its exception, when the
  failure was caught.
\<close>

theorem download_data_summary:
  assumes "fetch_object_list (list_pages env endpoint) endpoint 10 None project_id project_name =
           Some (reqs, lgs, Inr objects_list)"
    and "\<forall>obj \<in> set objects_list. fetched env endpoint (obj_id obj) \<noteq> None"
  shows "\<exists>io2 vars.
           process_objects dumps env endpoint objects_list
             (io\<lparr>sent := sent io @ reqs, logs := logs io @ lgs\<rparr>, initial_vars) = Some (io2, vars) \<and>
           download_data dumps env io endpoint project_id project_name =
             Some (io2\<lparr>logs := logs io2 @
                      [(INFO, ProcessingComplete endpoint),
                       (INFO, TotalObjectsProcessed (length objects_list)),
                       (INFO, ObjectsWithNoEvents (length (objects_without_events vars)))] @
                      (if objects_without_events vars = [] then []
                       else [(INFO, IdsWithNoEvents (objects_without_events vars))]) @
                      (if failed_objects vars = [] then []
                       else [(ERROR, FailedEndpoints
                                (replicate (length (failed_objects vars)) endpoint))])\<rparr>,
                   Inr ()) \<and>
           objects_without_events vars =
             filter (no_events env endpoint) (map obj_id objects_list) \<and>
           failed_objects vars =
             filter (\<lambda>oid. caught dumps env endpoint oid \<noteq> None) (map obj_id objects_list) \<and>
           (\<forall>oid \<in> set (failed_objects vars).
              \<exists>e. (ERROR, ErrProcessing endpoint oid e) \<in> set (logs io2))"
proof -
  let ?io1 = "io\<lparr>sent := sent io @ reqs, logs := logs io @ lgs\<rparr>"
  from download_data_listing_returns [OF assms, of dumps io] obtain io2 vars where
    run: "process_objects dumps env endpoint objects_list (?io1, initial_vars) = Some (io2, vars)"
    and dd: "download_data dumps env io endpoint project_id project_name =
         Some (io2\<lparr>logs := logs io2 @ run_summary endpoint objects_list vars\<rparr>, Inr ())"
    and fo: "failed_objects vars =
         filter (\<lambda>oid. caught dumps env endpoint oid \<noteq> None) (map obj_id objects_list)"
    and fe: "failed_endpoints vars = replicate (length (failed_objects vars)) endpoint"
    and ne: "objects_without_events vars =
         filter (no_events env endpoint) (map obj_id objects_list)"
    by blast
  have fe_Nil: "failed_endpoints vars = [] \<longleftrightarrow> failed_objects vars = []"
    using fe by (metis length_0_conv length_replicate)
  have summary: "run_summary endpoint objects_list vars =
      [(INFO, ProcessingComplete endpoint),
       (INFO, TotalObjectsProcessed (length objects_list)),
       (INFO, ObjectsWithNoEvents (length (objects_without_events vars)))] @
      (if objects_without_events vars = [] then []
       else [(INFO, IdsWithNoEvents (objects_without_events vars))]) @
      (if failed_objects vars = [] then []
       else [(ERROR, FailedEndpoints (replicate (length (failed_objects vars)) endpoint))])"
    using fe fe_Nil by (simp add: run_summary_def)
  have logged: "\<forall>oid \<in> set (failed_objects vars).
      \<exists>e. (ERROR, ErrProcessing endpoint oid e) \<in> set (logs io2)"
  proof
    fix oid assume "oid \<in> set (failed_objects vars)"
    then obtain obj e where "obj \<in> set objects_list" "obj_id obj = oid"
      "caught dumps env endpoint oid = Some e"
      unfolding fo by auto
    with process_objects_trace [OF run]
    show "\<exists>e. (ERROR, ErrProcessing endpoint oid e) \<in> set (logs io2)" by blast
  qed
  note dd' = dd [unfolded summary]
  show ?thesis
    using run dd' ne fo logged by blast
qed

theorem download_data_summary_witness:
  "fetch_object_list (list_pages example_env ''experiment'') ''experiment'' 10 None (Some ''P'') None =
     Some ([ListRequest ''experiment''
              \<lparr>p_limit = 10, p_starting_after = None, p_project_id = Some ''P'',
                 p_project_name = None\<rparr>], [], Inr example_objects) \<and>
   list_all (\<lambda>obj. fetched example_env ''experiment'' (obj_id obj) \<noteq> None) example_objects \<and>
   (\<exists>io2. download_data example_dumps example_env example_io ''experiment'' (Some ''P'') None =
           Some (io2, Inr ())) \<and>
   map_option (logs \<circ> fst)
     (download_data example_dumps example_env example_io ''experiment'' (Some ''P'') None) =
     Some [(ERROR, ErrFetchEvents ''experiment'' ''X'' (RequestException ''503'')),
           (ERROR, ErrProcessing ''experiment'' ''X'' (RequestException ''503'')),
           (INFO, ProcessingComplete ''experiment''),
           (INFO, TotalObjectsProcessed 3),
           (INFO, ObjectsWithNoEvents 1),
           (INFO, IdsWithNoEvents [''Z'']),
           (ERROR, FailedEndpoints [''experiment''])]"
proof -
  have h: "\<forall>obj \<in> set example_objects. fetched example_env ''experiment'' (obj_id obj) \<noteq> None"
    by (simp add: example_objects_def example_fetched)
  have r: "\<exists>io2. download_data example_dumps example_env example_io ''experiment'' (Some ''P'') None =
           Some (io2, Inr ())"
    using download_data_summary [OF example_listing h, of example_dumps example_io] by blast
  show ?thesis
    using h r example_listing example_run_log by (simp add: list_all_iff)
qed

end
